theory Spec2Isabelle
  imports Main "HOL-Library.Word"
begin

unbundle bit_operations_syntax

section \<open>The file system under the store\<close>

text \<open>
  \<^verbatim>\<open>FileStore.js\<close> keeps two files per upload under \<^verbatim>\<open>this.directory\<close>: the
  data file \<^verbatim>\<open><directory>/<id>\<close> and the info file \<^verbatim>\<open><directory>/<id>.info\<close>;
  a write call stages its chunk in \<^verbatim>\<open><directory>/<id>.tmp\<close>. The file system is a
  map from path strings to nodes. Two paths are the same file exactly when
  they are the same string: links and the resolution of \<^verbatim>\<open>.\<close> and \<^verbatim>\<open>..\<close> are not
  modelled, so nothing is stated about files that two different identifiers
  name; the three paths of one identifier never name the same file. One call runs
  at a time: the callbacks of a call are taken in the order in which Node
  delivers them for that call alone.
\<close>

type_synonym path = string
type_synonym bytes = string

datatype node = RegFile bytes | Directory

type_synonym filesystem = "path \<Rightarrow> node option"

text \<open>
  Every \<^verbatim>\<open>fs\<close> operation can fail for reasons the map does not show (permissions,
  a full disk, a missing parent directory). Such failures are given from
  outside, per call, as the error code the operation reports on a path. A
  stream that fails while writing has already written \<open>short_write\<close> bytes.
\<close>

datatype fsop =
  OpOpen | OpClose | OpWriteFileAtomic | OpReadFile | OpStat
  | OpStreamOpen | OpStreamWrite | OpUnlink

record faults =
  fault :: "fsop \<Rightarrow> path \<Rightarrow> string option"
  short_write :: "path \<Rightarrow> nat"

definition no_faults :: faults where
  "no_faults = \<lparr>fault = (\<lambda>_ _. None), short_write = (\<lambda>_. 0)\<rparr>"

definition FILE_DOESNT_EXIST :: string where
  "FILE_DOESNT_EXIST = ''ENOENT''"

text \<open>\<^verbatim>\<open>fs.open(path, 'w')\<close>: create the file or truncate it.\<close>

definition fs_open_w :: "faults \<Rightarrow> path \<Rightarrow> filesystem \<Rightarrow> string + filesystem" where
  "fs_open_w io p fs =
     (case fault io OpOpen p of
        Some code \<Rightarrow> Inl code
      | None \<Rightarrow>
          (case fs p of
             Some Directory \<Rightarrow> Inl ''EISDIR''
           | _ \<Rightarrow> Inr (fs(p \<mapsto> RegFile []))))"

text \<open>\<^verbatim>\<open>fs.close(fd)\<close>, for the descriptor opened on \<open>p\<close>.\<close>

definition fs_close :: "faults \<Rightarrow> path \<Rightarrow> string option" where
  "fs_close io p = fault io OpClose p"

text \<open>
  \<^verbatim>\<open>writeFileAtomic.sync(filename, data)\<close>: the data goes to a temporary file
  that is renamed over the target; when it throws, the target is as before.
\<close>

definition writeFileAtomic_sync ::
  "faults \<Rightarrow> path \<Rightarrow> bytes \<Rightarrow> filesystem \<Rightarrow> string + filesystem" where
  "writeFileAtomic_sync io p data fs =
     (case fault io OpWriteFileAtomic p of
        Some code \<Rightarrow> Inl code
      | None \<Rightarrow>
          (case fs p of
             Some Directory \<Rightarrow> Inl ''EISDIR''
           | _ \<Rightarrow> Inr (fs(p \<mapsto> RegFile data))))"

text \<open>\<^verbatim>\<open>fs.readFileSync(path)\<close>.\<close>

definition readFileSync :: "faults \<Rightarrow> path \<Rightarrow> filesystem \<Rightarrow> string + bytes" where
  "readFileSync io p fs =
     (case fault io OpReadFile p of
        Some code \<Rightarrow> Inl code
      | None \<Rightarrow>
          (case fs p of
             None \<Rightarrow> Inl FILE_DOESNT_EXIST
           | Some Directory \<Rightarrow> Inl ''EISDIR''
           | Some (RegFile data) \<Rightarrow> Inr data))"

text \<open>
  \<^verbatim>\<open>fs.stat(path)\<close>. Of the status object only \<^verbatim>\<open>isDirectory()\<close> and \<^verbatim>\<open>size\<close>
  are modelled; the size of a directory is not read by the store.
\<close>

datatype Stats = Stats (isDirectory: bool) (st_size: nat)

definition fs_stat :: "faults \<Rightarrow> path \<Rightarrow> filesystem \<Rightarrow> string + Stats" where
  "fs_stat io p fs =
     (case fault io OpStat p of
        Some code \<Rightarrow> Inl code
      | None \<Rightarrow>
          (case fs p of
             None \<Rightarrow> Inl FILE_DOESNT_EXIST
           | Some Directory \<Rightarrow> Inr (Stats True 0)
           | Some (RegFile data) \<Rightarrow> Inr (Stats False (length data))))"

text \<open>
  \<^verbatim>\<open>fs.createWriteStream(path, { flags: 'w' })\<close> with \<open>data\<close> piped into it.
  The result is the error the stream emits, if any, and the file system it
  leaves: nothing is created when the open fails, a prefix of the data is in
  the file when a write fails.
\<close>

definition createWriteStream_w ::
  "faults \<Rightarrow> path \<Rightarrow> bytes \<Rightarrow> filesystem \<Rightarrow> string option \<times> filesystem" where
  "createWriteStream_w io p data fs =
     (case fault io OpStreamOpen p of
        Some code \<Rightarrow> (Some code, fs)
      | None \<Rightarrow>
          (case fs p of
             Some Directory \<Rightarrow> (Some ''EISDIR'', fs)
           | _ \<Rightarrow>
               (case fault io OpStreamWrite p of
                  Some code \<Rightarrow> (Some code, fs(p \<mapsto> RegFile (take (short_write io p) data)))
                | None \<Rightarrow> (None, fs(p \<mapsto> RegFile data)))))"

text \<open>
  Writing \<open>data\<close> into a file at position \<open>start\<close> without truncating it:
  bytes before and after the written range stay, a gap between the old end of
  the file and \<open>start\<close> reads as zero bytes. A stream that receives no data
  writes nothing.
\<close>

definition pwrite :: "bytes \<Rightarrow> nat \<Rightarrow> bytes \<Rightarrow> bytes" where
  "pwrite old start data =
     (if data = [] then old
      else
        (let padded = old @ replicate (start - length old) (CHR 0x00)
         in take start padded @ data @ drop (start + length data) padded))"

text \<open>
  \<^verbatim>\<open>fs.createWriteStream(path, { flags: 'r+', start: offset })\<close> with \<open>data\<close>
  piped into it. The flag \<^verbatim>\<open>r+\<close> does not create the file.
\<close>

definition createWriteStream_rplus ::
  "faults \<Rightarrow> path \<Rightarrow> nat \<Rightarrow> bytes \<Rightarrow> filesystem \<Rightarrow> string option \<times> filesystem" where
  "createWriteStream_rplus io p start data fs =
     (case fault io OpStreamOpen p of
        Some code \<Rightarrow> (Some code, fs)
      | None \<Rightarrow>
          (case fs p of
             None \<Rightarrow> (Some FILE_DOESNT_EXIST, fs)
           | Some Directory \<Rightarrow> (Some ''EISDIR'', fs)
           | Some (RegFile old) \<Rightarrow>
               (case fault io OpStreamWrite p of
                  Some code \<Rightarrow>
                    (Some code, fs(p \<mapsto> RegFile (pwrite old start (take (short_write io p) data))))
                | None \<Rightarrow> (None, fs(p \<mapsto> RegFile (pwrite old start data))))))"

text \<open>\<^verbatim>\<open>fs.unlink(path, cb)\<close> with a callback that ignores the outcome.\<close>

definition fs_unlink :: "faults \<Rightarrow> path \<Rightarrow> filesystem \<Rightarrow> filesystem" where
  "fs_unlink io p fs =
     (case fault io OpUnlink p of
        Some code \<Rightarrow> fs
      | None \<Rightarrow> (case fs p of Some (RegFile data) \<Rightarrow> fs(p := None) | _ \<Rightarrow> fs))"

section \<open>JavaScript values the store inspects\<close>

text \<open>
  The value \<^verbatim>\<open>JSON.parse\<close> returns. A number is kept as the string that
  \<^verbatim>\<open>String(n)\<close> gives for it, which is all that truthiness and \<^verbatim>\<open>parseInt\<close>
  need. Strings are sequences of 8-bit characters.
\<close>

datatype json =
  JNull | JBool bool | JNumber string | JString string
  | JArray "json list" | JObject "(string \<times> json) list"

fun truthy :: "json \<Rightarrow> bool" where
  "truthy JNull = False"
| "truthy (JBool b) = b"
| "truthy (JNumber s) = (s \<noteq> ''0'')"
| "truthy (JString s) = (s \<noteq> [])"
| "truthy (JArray xs) = True"
| "truthy (JObject kvs) = True"

fun join_comma :: "string list \<Rightarrow> string" where
  "join_comma [] = []"
| "join_comma [s] = s"
| "join_comma (s # t # r) = s @ '','' @ join_comma (t # r)"

text \<open>\<^verbatim>\<open>String(v)\<close>; \<open>None\<close> is \<^verbatim>\<open>undefined\<close>.\<close>

fun ToString :: "json \<Rightarrow> string" where
  "ToString JNull = ''null''"
| "ToString (JBool b) = (if b then ''true'' else ''false'')"
| "ToString (JNumber s) = s"
| "ToString (JString s) = s"
| "ToString (JArray xs) = join_comma (map (\<lambda>x. if x = JNull then [] else ToString x) xs)"
| "ToString (JObject kvs) = ''[object Object]''"

definition ToString_opt :: "json option \<Rightarrow> string" where
  "ToString_opt v = (case v of None \<Rightarrow> ''undefined'' | Some x \<Rightarrow> ToString x)"

text \<open>\<^verbatim>\<open>config.upload_length\<close> for a truthy \<open>config\<close>.\<close>

fun get_upload_length :: "json \<Rightarrow> json option" where
  "get_upload_length (JObject kvs) = map_of kvs ''upload_length''"
| "get_upload_length v = None"

definition is_js_space :: "char \<Rightarrow> bool" where
  "is_js_space c = (of_char c \<in> {9, 10, 11, 12, 13, 32, 160 :: nat})"

definition is_digit :: "char \<Rightarrow> bool" where
  "is_digit c = (48 \<le> (of_char c :: nat) \<and> (of_char c :: nat) \<le> 57)"

definition digits_value :: "string \<Rightarrow> int" where
  "digits_value ds = foldl (\<lambda>a c. 10 * a + (of_char c - 48)) 0 ds"

text \<open>
  \<^verbatim>\<open>parseInt(s, 10)\<close>: leading white space is skipped, one sign is read, then
  the longest run of decimal digits; \<open>None\<close> is \<^verbatim>\<open>NaN\<close>. The result is the
  mathematical integer: it is the JavaScript number as long as it stays below
  \<open>2^53\<close>, and offsets above that are not accepted by \<^verbatim>\<open>createWriteStream\<close>.
\<close>

definition parseInt :: "string \<Rightarrow> int option" where
  "parseInt s =
     (let t = dropWhile is_js_space s;
          neg = (t \<noteq> [] \<and> hd t = CHR ''-'');
          u = (if t \<noteq> [] \<and> (hd t = CHR ''-'' \<or> hd t = CHR ''+'') then tl t else t);
          z = takeWhile is_digit u
      in if z = [] then None
         else Some (if neg then - digits_value z else digits_value z))"

text \<open>\<^verbatim>\<open>s.split(' ')\<close>, and \<^verbatim>\<open>xs[i]\<close> with \<open>None\<close> for \<^verbatim>\<open>undefined\<close>.\<close>

fun split_space :: "string \<Rightarrow> string list" where
  "split_space [] = [[]]"
| "split_space (c # cs) =
     (if c = CHR '' '' then [] # split_space cs
      else (case split_space cs of [] \<Rightarrow> [[c]] | w # ws \<Rightarrow> (c # w) # ws))"

definition at_index :: "'a list \<Rightarrow> nat \<Rightarrow> 'a option" where
  "at_index xs i = (if i < length xs then Some (xs ! i) else None)"

section \<open>SHA-1 and base64\<close>

text \<open>
  \<^verbatim>\<open>crypto.createHash('sha1')\<close> fed with the bytes of a file and read with
  \<^verbatim>\<open>digest('base64')\<close>: SHA-1 as in FIPS 180 on 32-bit words, bytes as
  integers in \<open>0..255\<close>.
\<close>

definition rotl32 :: "nat \<Rightarrow> 32 word \<Rightarrow> 32 word" where
  "rotl32 n w = (push_bit n w) OR (drop_bit (32 - n) w)"

definition be_bytes :: "nat \<Rightarrow> int \<Rightarrow> int list" where
  "be_bytes k n = map (\<lambda>i. (n div 256 ^ i) mod 256) (rev [0..<k])"

definition sha1_pad :: "int list \<Rightarrow> int list" where
  "sha1_pad m =
     (let l = length m;
          z = (119 - l mod 64) mod 64
      in m @ [128] @ replicate z 0 @ be_bytes 8 (8 * int l))"

definition be_word :: "int list \<Rightarrow> 32 word" where
  "be_word bs = word_of_int (foldl (\<lambda>a b. 256 * a + b) 0 bs)"

fun chop :: "nat \<Rightarrow> 'a list \<Rightarrow> 'a list list" where
  "chop n [] = []"
| "chop n xs = (if n = 0 then [xs] else take n xs # chop n (drop n xs))"

text \<open>
  The message schedule, built on the reversed list of the words so far:
  \<open>W\<^sub>t = rotl 1 (W\<^sub>t\<^sub>-\<^sub>3 XOR W\<^sub>t\<^sub>-\<^sub>8 XOR W\<^sub>t\<^sub>-\<^sub>1\<^sub>4 XOR W\<^sub>t\<^sub>-\<^sub>1\<^sub>6)\<close>.
\<close>

fun sha1_expand :: "nat \<Rightarrow> 32 word list \<Rightarrow> 32 word list" where
  "sha1_expand 0 r = r"
| "sha1_expand (Suc k) r =
     sha1_expand k (rotl32 1 (r ! 2 XOR r ! 7 XOR r ! 13 XOR r ! 15) # r)"

definition sha1_schedule :: "32 word list \<Rightarrow> 32 word list" where
  "sha1_schedule w = rev (sha1_expand 64 (rev w))"

definition sha1_f :: "nat \<Rightarrow> 32 word \<Rightarrow> 32 word \<Rightarrow> 32 word \<Rightarrow> 32 word" where
  "sha1_f t b c d =
     (if t < 20 then (b AND c) OR (NOT b AND d)
      else if t < 40 then b XOR c XOR d
      else if t < 60 then (b AND c) OR (b AND d) OR (c AND d)
      else b XOR c XOR d)"

definition sha1_k :: "nat \<Rightarrow> 32 word" where
  "sha1_k t =
     (if t < 20 then 0x5A827999 else if t < 40 then 0x6ED9EBA1
      else if t < 60 then 0x8F1BBCDC else 0xCA62C1D6)"

type_synonym sha1_state = "32 word \<times> 32 word \<times> 32 word \<times> 32 word \<times> 32 word"

fun sha1_round :: "sha1_state \<Rightarrow> nat \<times> 32 word \<Rightarrow> sha1_state" where
  "sha1_round (a, b, c, d, e) (t, w) =
     (rotl32 5 a + sha1_f t b c d + e + sha1_k t + w, a, rotl32 30 b, c, d)"

fun sha1_rounds :: "nat \<Rightarrow> sha1_state \<Rightarrow> 32 word list \<Rightarrow> sha1_state" where
  "sha1_rounds t s [] = s"
| "sha1_rounds t s (w # ws) = sha1_rounds (t + 1) (sha1_round s (t, w)) ws"

fun sha1_block :: "sha1_state \<Rightarrow> int list \<Rightarrow> sha1_state" where
  "sha1_block (h0, h1, h2, h3, h4) blk =
     (case sha1_rounds 0 (h0, h1, h2, h3, h4) (sha1_schedule (map be_word (chop 4 blk))) of
        (a, b, c, d, e) \<Rightarrow> (h0 + a, h1 + b, h2 + c, h3 + d, h4 + e))"

definition sha1_init :: sha1_state where
  "sha1_init = (0x67452301, 0xEFCDAB89, 0x98BADCFE, 0x10325476, 0xC3D2E1F0)"

definition sha1 :: "int list \<Rightarrow> int list" where
  "sha1 m =
     (case foldl sha1_block sha1_init (chop 64 (sha1_pad m)) of
        (h0, h1, h2, h3, h4) \<Rightarrow> concat (map (\<lambda>h. be_bytes 4 (uint h)) [h0, h1, h2, h3, h4]))"

definition b64_alphabet :: string where
  "b64_alphabet = ''ABCDEFGHIJKLMNOPQRSTUVWXYZabcdefghijklmnopqrstuvwxyz0123456789+/''"

definition b64_char :: "int \<Rightarrow> char" where
  "b64_char n = b64_alphabet ! nat (n mod 64)"

fun base64 :: "int list \<Rightarrow> string" where
  "base64 [] = []"
| "base64 [a] =
     [b64_char (a div 4), b64_char ((a mod 4) * 16), CHR ''='', CHR ''='']"
| "base64 [a, b] =
     [b64_char (a div 4), b64_char ((a mod 4) * 16 + b div 16),
      b64_char ((b mod 16) * 4), CHR ''='']"
| "base64 (a # b # c # r) =
     [b64_char (a div 4), b64_char ((a mod 4) * 16 + b div 16),
      b64_char ((b mod 16) * 4 + c div 64), b64_char (c mod 64)] @ base64 r"

definition sha1_base64 :: "bytes \<Rightarrow> string" where
  "sha1_base64 d = base64 (sha1 (map of_char d))"

section \<open>The store\<close>

text \<open>
  A request as the store reads it: the header dictionary and the body as the
  list of buffers the \<^verbatim>\<open>data\<close> events deliver. The body is delivered
  completely (a request that is cut short is outside this model).
\<close>

record request =
  headers :: "string \<Rightarrow> string option"
  body :: "bytes list"

text \<open>
  Modelled from the spec: the class \<^verbatim>\<open>File\<close> of \<^verbatim>\<open>../models/File\<close> is not among the
  sources. The spec's UploadRecord has the identifier, the declared length, the
  deferred flag and the opaque metadata; the constructor call in \<^verbatim>\<open>create\<close> passes
  these four, the last three as the header values.
\<close>

record File =
  file_ident :: string
  file_upload_length :: "string option"
  file_upload_defer_length :: "string option"
  file_upload_metadata :: "string option"

text \<open>
  What the store is configured with and the library functions it calls:
  the directory, the naming function behind \<^verbatim>\<open>this.generateFileName\<close> (\<open>None\<close>
  when it throws), and \<^verbatim>\<open>JSON.stringify\<close> and \<^verbatim>\<open>JSON.parse\<close> (\<open>None\<close> when it
  throws).
\<close>

record env =
  directory :: string
  generateFileName :: "request \<Rightarrow> string option"
  JSON_stringify :: "File \<Rightarrow> bytes"
  JSON_parse :: "bytes \<Rightarrow> json option"

text \<open>
  The values the promises reject with: the entries of \<^verbatim>\<open>ERRORS\<close> that the store
  uses, and the error object of a failed \<^verbatim>\<open>fs\<close> call, passed on as it is.
\<close>

datatype error =
  INVALID_LENGTH | FILE_WRITE_ERROR | CHECKSUM_ALGORITHM_UNSUPPORTED | CHECKSUM_MISMATCH
  | FILE_NOT_FOUND | FILE_NO_LONGER_EXISTS | SystemError string

text \<open>
  Modelled from the spec: the failure kinds of the spec's taxonomy, and the kind
  each rejection value stands for (\<^verbatim>\<open>../constants\<close> is not among the sources;
  the entries of \<^verbatim>\<open>ERRORS\<close> are matched by name).
\<close>

datatype kind =
  InvalidLength | IdentifierGenerationError | StorageWriteError
  | ChecksumAlgorithmUnsupported | ChecksumMismatch | NotFound | ArtifactVanished
  | IoPassthrough

fun kind_of :: "error \<Rightarrow> kind" where
  "kind_of INVALID_LENGTH = InvalidLength"
| "kind_of FILE_WRITE_ERROR = StorageWriteError"
| "kind_of CHECKSUM_ALGORITHM_UNSUPPORTED = ChecksumAlgorithmUnsupported"
| "kind_of CHECKSUM_MISMATCH = ChecksumMismatch"
| "kind_of FILE_NOT_FOUND = NotFound"
| "kind_of FILE_NO_LONGER_EXISTS = ArtifactVanished"
| "kind_of (SystemError code) = IoPassthrough"

definition fails_with :: "error + 'a \<Rightarrow> kind \<Rightarrow> bool" where
  "fails_with r k = (case r of Inl e \<Rightarrow> kind_of e = k | Inr v \<Rightarrow> False)"

datatype event = EVENT_FILE_CREATED File | EVENT_UPLOAD_COMPLETE json

record state =
  disk :: filesystem
  emitted :: "event list"

definition filePath :: "env \<Rightarrow> string \<Rightarrow> path" where
  "filePath e file_id = directory e @ ''/'' @ file_id"

definition infoPath :: "env \<Rightarrow> string \<Rightarrow> path" where
  "infoPath e file_id = directory e @ ''/'' @ file_id @ ''.info''"

text \<open>\<^verbatim>\<open>getFileInfo\<close>: the parsed info file, or \<^verbatim>\<open>null\<close> when reading or parsing throws.\<close>

definition getFileInfo :: "env \<Rightarrow> faults \<Rightarrow> string \<Rightarrow> filesystem \<Rightarrow> json" where
  "getFileInfo e io file_id fs =
     (case readFileSync io (infoPath e file_id) fs of
        Inl code \<Rightarrow> JNull
      | Inr data \<Rightarrow> (case JSON_parse e data of None \<Rightarrow> JNull | Some file \<Rightarrow> file))"

text \<open>\<^verbatim>\<open>writeFileInfo\<close>: \<open>Inl\<close> is what \<^verbatim>\<open>writeFileAtomic.sync\<close> throws.\<close>

definition writeFileInfo :: "env \<Rightarrow> faults \<Rightarrow> File \<Rightarrow> filesystem \<Rightarrow> string + filesystem" where
  "writeFileInfo e io file fs =
     writeFileAtomic_sync io (infoPath e (file_ident file)) (JSON_stringify e file) fs"

definition create :: "env \<Rightarrow> faults \<Rightarrow> request \<Rightarrow> state \<Rightarrow> (error + File) \<times> state" where
  "create e io req s =
     (let upload_length = headers req ''upload-length'';
          upload_defer_length = headers req ''upload-defer-length'';
          upload_metadata = headers req ''upload-metadata''
      in if upload_length = None \<and> upload_defer_length = None then (Inl INVALID_LENGTH, s)
         else
           (case generateFileName e req of
              None \<Rightarrow> (Inl FILE_WRITE_ERROR, s)
            | Some file_id \<Rightarrow>
                (let file = \<lparr>file_ident = file_id, file_upload_length = upload_length,
                              file_upload_defer_length = upload_defer_length,
                              file_upload_metadata = upload_metadata\<rparr>;
                     filepath = filePath e file_id
                 in case fs_open_w io filepath (disk s) of
                      Inl err \<Rightarrow> (Inl (SystemError err), s)
                    | Inr fs1 \<Rightarrow>
                        (case writeFileInfo e io file fs1 of
                           Inl infoWriteError \<Rightarrow> (Inl (SystemError infoWriteError), s\<lparr>disk := fs1\<rparr>)
                         | Inr fs2 \<Rightarrow>
                             (case fs_close io filepath of
                                Some exception \<Rightarrow> (Inl (SystemError exception), s\<lparr>disk := fs2\<rparr>)
                              | None \<Rightarrow>
                                  (Inr file,
                                   \<lparr>disk = fs2, emitted = emitted s @ [EVENT_FILE_CREATED file]\<rparr>))))))"

text \<open>
  \<^verbatim>\<open>calculateSHA1File\<close> is given the bytes of the staged file, which the write
  call has just written.
\<close>

definition calculateSHA1File :: "bytes \<Rightarrow> string" where
  "calculateSHA1File staged = sha1_base64 staged"

text \<open>
  The check of the \<^verbatim>\<open>upload-checksum\<close> header in the \<^verbatim>\<open>finish\<close> handler of the
  staging stream: the rejection value, or \<open>None\<close> when the handler goes on.
\<close>

definition verify_checksum :: "request \<Rightarrow> bytes \<Rightarrow> error option" where
  "verify_checksum req staged =
     (case headers req ''upload-checksum'' of
        None \<Rightarrow> None
      | Some upload_checksum \<Rightarrow>
          (let upload_checksum_algorithm = at_index (split_space upload_checksum) 0;
               upload_checksum_value = at_index (split_space upload_checksum) 1
           in if upload_checksum_algorithm \<noteq> Some ''sha1'' then Some CHECKSUM_ALGORITHM_UNSUPPORTED
              else if upload_checksum_value \<noteq> Some (calculateSHA1File staged)
                then Some CHECKSUM_MISMATCH
              else None))"

text \<open>
  \<^verbatim>\<open>config && parseInt(config.upload_length, 10) === offset\<close>.
\<close>

definition upload_complete :: "json \<Rightarrow> nat \<Rightarrow> bool" where
  "upload_complete config offset =
     (truthy config \<and> parseInt (ToString_opt (get_upload_length config)) = Some (int offset))"

text \<open>
  \<^verbatim>\<open>write\<close>. The staged bytes are the concatenation of the buffers, \<open>new_offset\<close>
  the sum of their lengths. The digest and the commit read the staged file
  back: it holds the staged bytes, and reading it does not fail (the streams
  that read it have no error handler). \<^verbatim>\<open>getFileInfo\<close> runs in the \<^verbatim>\<open>finish\<close>
  handler before the \<^verbatim>\<open>unlink\<close> it started has completed. The starting offset
  is a natural number below \<open>2^53\<close>, where JavaScript numbers are exact.
\<close>

definition "write" ::
  "env \<Rightarrow> faults \<Rightarrow> request \<Rightarrow> string \<Rightarrow> nat \<Rightarrow> state \<Rightarrow> (error + nat) \<times> state" where
  "write e io req file_id offset s =
     (let path = filePath e file_id;
          tempchunkpath = path @ ''.tmp'';
          staged = concat (body req);
          new_offset = sum_list (map length (body req))
      in case createWriteStream_w io tempchunkpath staged (disk s) of
           (Some err, fs1) \<Rightarrow> (Inl FILE_WRITE_ERROR, s\<lparr>disk := fs1\<rparr>)
         | (None, fs1) \<Rightarrow>
             (case verify_checksum req staged of
                Some rejection \<Rightarrow> (Inl rejection, s\<lparr>disk := fs1\<rparr>)
              | None \<Rightarrow>
                  (case createWriteStream_rplus io path offset staged fs1 of
                     (Some err, fs2) \<Rightarrow> (Inl FILE_WRITE_ERROR, s\<lparr>disk := fs2\<rparr>)
                   | (None, fs2) \<Rightarrow>
                       (let config = getFileInfo e io file_id fs2;
                            fs3 = fs_unlink io tempchunkpath fs2
                        in (Inr (offset + new_offset),
                            \<lparr>disk = fs3,
                             emitted =
                               (if upload_complete config (offset + new_offset)
                                then emitted s @ [EVENT_UPLOAD_COMPLETE config]
                                else emitted s)\<rparr>)))))"

text \<open>
  \<^verbatim>\<open>getOffset\<close> resolves with \<^verbatim>\<open>Object.assign(stats, config)\<close>: the status object
  with the own properties of \<open>config\<close> copied over it (none when \<open>config\<close> is
  \<^verbatim>\<open>null\<close>). The two arguments are kept as they are.
\<close>

record offset_view =
  stats :: Stats
  assigned :: json

definition getOffset :: "env \<Rightarrow> faults \<Rightarrow> string \<Rightarrow> state \<Rightarrow> error + offset_view" where
  "getOffset e io file_id s =
     (let config = getFileInfo e io file_id (disk s);
          file_path = filePath e file_id
      in case fs_stat io file_path (disk s) of
           Inl code \<Rightarrow>
             (if code = FILE_DOESNT_EXIST \<and> truthy config then Inl FILE_NO_LONGER_EXISTS
              else if code = FILE_DOESNT_EXIST then Inl FILE_NOT_FOUND
              else Inl (SystemError code))
         | Inr st \<Rightarrow>
             (if isDirectory st then Inl FILE_NOT_FOUND
              else Inr \<lparr>stats = st, assigned = config\<rparr>))"

section \<open>A sequence of write calls on one upload\<close>

text \<open>
  The lifetime of an upload as far as \<^verbatim>\<open>write\<close> is concerned: the calls made for
  its identifier, one after the other, each with its own request, starting
  offset and I/O failures. The results are dropped; the notifications stay in
  the state.
\<close>

type_synonym write_call = "faults \<times> request \<times> nat"

definition new_offset_of :: "write_call \<Rightarrow> nat" where
  "new_offset_of c = (case c of (io, req, offset) \<Rightarrow> offset + sum_list (map length (body req)))"

fun write_sequence :: "env \<Rightarrow> string \<Rightarrow> write_call list \<Rightarrow> state \<Rightarrow> state" where
  "write_sequence e file_id [] s = s"
| "write_sequence e file_id ((io, req, offset) # calls) s =
     write_sequence e file_id calls (snd (write e io req file_id offset s))"

fun is_upload_complete :: "event \<Rightarrow> bool" where
  "is_upload_complete (EVENT_UPLOAD_COMPLETE config) = True"
| "is_upload_complete (EVENT_FILE_CREATED file) = False"

definition completions :: "state \<Rightarrow> nat" where
  "completions s = length (filter is_upload_complete (emitted s))"

section \<open>A concrete store\<close>

text \<open>
  A store on the directory \<^verbatim>\<open>files\<close> whose naming function always answers
  \<^verbatim>\<open>f1\<close>. \<open>example_stringify\<close> writes the JSON text of a \<open>File\<close> whose strings
  need no escaping, as \<^verbatim>\<open>JSON.stringify\<close> does (absent fields are left out);
  \<open>example_parse\<close> reads back the one document the examples store and takes
  any other text as unparsable.
\<close>

definition quoted :: "string \<Rightarrow> string" where
  "quoted s = CHR 0x22 # s @ [CHR 0x22]"

definition json_member :: "string \<Rightarrow> string option \<Rightarrow> string list" where
  "json_member k v = (case v of None \<Rightarrow> [] | Some x \<Rightarrow> [quoted k @ '':'' @ quoted x])"

definition example_stringify :: "File \<Rightarrow> bytes" where
  "example_stringify f =
     ''{'' @ join_comma
       ([quoted ''id'' @ '':'' @ quoted (file_ident f)]
        @ json_member ''upload_length'' (file_upload_length f)
        @ json_member ''upload_defer_length'' (file_upload_defer_length f)
        @ json_member ''upload_metadata'' (file_upload_metadata f)) @ ''}''"

definition example_file :: File where
  "example_file =
     \<lparr>file_ident = ''f1'', file_upload_length = Some ''10'',
      file_upload_defer_length = None, file_upload_metadata = None\<rparr>"

definition example_config :: json where
  "example_config = JObject [(''id'', JString ''f1''), (''upload_length'', JString ''10'')]"

definition example_parse :: "bytes \<Rightarrow> json option" where
  "example_parse b = (if b = example_stringify example_file then Some example_config else None)"

definition example_env :: env where
  "example_env =
     \<lparr>directory = ''files'', generateFileName = (\<lambda>req. Some ''f1''),
      JSON_stringify = example_stringify, JSON_parse = example_parse\<rparr>"

definition failing_name_env :: env where
  "failing_name_env = example_env\<lparr>generateFileName := (\<lambda>req. None)\<rparr>"

definition length_request :: request where
  "length_request = \<lparr>headers = [''upload-length'' \<mapsto> ''10''], body = []\<rparr>"

definition both_request :: request where
  "both_request =
     \<lparr>headers = [''upload-length'' \<mapsto> ''10'', ''upload-defer-length'' \<mapsto> ''1''], body = []\<rparr>"

definition empty_state :: state where
  "empty_state = \<lparr>disk = Map.empty, emitted = []\<rparr>"

text \<open>The state after \<^verbatim>\<open>create\<close> of \<open>length_request\<close> on the empty directory.\<close>

definition created_state :: state where
  "created_state =
     \<lparr>disk = [''files/f1'' \<mapsto> RegFile [],
              ''files/f1.info'' \<mapsto> RegFile (example_stringify example_file)],
      emitted = []\<rparr>"

text \<open>I/O failures for the examples: one operation fails, on every path.\<close>

definition failing :: "fsop \<Rightarrow> string \<Rightarrow> faults" where
  "failing op code = no_faults\<lparr>fault := (\<lambda>op' p. if op' = op then Some code else None)\<rparr>"

text \<open>
  States for \<^verbatim>\<open>getOffset\<close>: the data file of \<^verbatim>\<open>f1\<close> removed behind the store's
  back, a directory where the data file should be, a data file with no info
  file, and a data file beside an info file that is not JSON.
\<close>

definition vanished_state :: state where
  "vanished_state =
     \<lparr>disk = [''files/f1.info'' \<mapsto> RegFile (example_stringify example_file)], emitted = []\<rparr>"

definition directory_state :: state where
  "directory_state = \<lparr>disk = [''files/f1'' \<mapsto> Directory], emitted = []\<rparr>"

definition data_only_state :: state where
  "data_only_state = \<lparr>disk = [''files/f1'' \<mapsto> RegFile ''hello''], emitted = []\<rparr>"

definition garbled_info_state :: state where
  "garbled_info_state =
     \<lparr>disk = [''files/f1'' \<mapsto> RegFile ''hello'', ''files/f1.info'' \<mapsto> RegFile ''{''],
      emitted = []\<rparr>"

text \<open>The created upload with a directory where its chunks are staged.\<close>

definition staging_blocked_state :: state where
  "staging_blocked_state =
     \<lparr>disk = [''files/f1'' \<mapsto> RegFile [],
              ''files/f1.info'' \<mapsto> RegFile (example_stringify example_file),
              ''files/f1.tmp'' \<mapsto> Directory],
      emitted = []\<rparr>"


definition abc_sha1_request :: request where
  "abc_sha1_request =
     \<lparr>headers = [''upload-checksum'' \<mapsto> ''sha1 qZk+NkcGgWq6PiVxeFDCbJzQ2J0=''], body = [''abc'']\<rparr>"

definition abc_wrong_digest_request :: request where
  "abc_wrong_digest_request =
     \<lparr>headers = [''upload-checksum'' \<mapsto> ''sha1 2jmj7l5rSw0yVb/vlWAYkK/YBwk=''], body = [''abc'']\<rparr>"

definition abc_md5_request :: request where
  "abc_md5_request =
     \<lparr>headers = [''upload-checksum'' \<mapsto> ''md5 kAFQmDzST7DWlj99KOF/cg==''], body = [''abc'']\<rparr>"

definition four_bytes_request :: request where
  "four_bytes_request = \<lparr>headers = Map.empty, body = [''abcd'']\<rparr>"

definition six_bytes_request :: request where
  "six_bytes_request = \<lparr>headers = Map.empty, body = [''efg'', ''hij'']\<rparr>"

definition no_bytes_request :: request where
  "no_bytes_request = \<lparr>headers = Map.empty, body = []\<rparr>"

text \<open>
  Calls on the upload \<^verbatim>\<open>f1\<close> of declared length 10: 4 bytes at offset 0 and 6 bytes
  at offset 4; then either a request with an empty body at offset 10, or the
  second request once more.
\<close>

definition two_calls :: "write_call list" where
  "two_calls = [(no_faults, four_bytes_request, 0), (no_faults, six_bytes_request, 4)]"

definition three_calls :: "write_call list" where
  "three_calls = two_calls @ [(no_faults, no_bytes_request, 10)]"

definition retried_calls :: "write_call list" where
  "retried_calls = two_calls @ [(no_faults, six_bytes_request, 4)]"

section \<open>The digest of a concrete chunk\<close>

text \<open>
  The digest of \<^verbatim>\<open>abc\<close>, step by step: the padded block, its sixteen words, the
  schedule, the eighty rounds in four runs of twenty, and the encoded result.
\<close>

lemma sha1_pad_abc:
  "sha1_pad (map of_char ''abc'') =
     [97, 98, 99, 128, 0, 0, 0, 0, 0, 0, 0, 0, 0, 0, 0, 0, 0, 0, 0, 0, 0, 0, 0, 0, 0, 0, 0, 0,
      0, 0, 0, 0, 0, 0, 0, 0, 0, 0, 0, 0, 0, 0, 0, 0, 0, 0, 0, 0, 0, 0, 0, 0, 0, 0, 0, 0, 0, 0,
      0, 0, 0, 0, 0, 24]"
  by code_simp

lemma sha1_words_abc:
  "map be_word (chop 4
     [97, 98, 99, 128, 0, 0, 0, 0, 0, 0, 0, 0, 0, 0, 0, 0, 0, 0, 0, 0, 0, 0, 0, 0, 0, 0, 0, 0,
      0, 0, 0, 0, 0, 0, 0, 0, 0, 0, 0, 0, 0, 0, 0, 0, 0, 0, 0, 0, 0, 0, 0, 0, 0, 0, 0, 0, 0, 0,
      0, 0, 0, 0, 0, 24]) =
     [1633837952, 0, 0, 0, 0, 0, 0, 0, 0, 0, 0, 0, 0, 0, 0, 24]"
  by code_simp

lemma sha1_expand_numeral:
  "sha1_expand (numeral n) r =
     sha1_expand (pred_numeral n) (rotl32 1 (r ! 2 XOR r ! 7 XOR r ! 13 XOR r ! 15) # r)"
  by (simp add: numeral_eq_Suc)

lemma sha1_schedule_abc:
  "sha1_schedule
     [1633837952, 0, 0, 0, 0, 0, 0, 0, 0, 0, 0, 0, 0, 0, 0, 24] =
     [1633837952, 0, 0, 0, 0, 0, 0, 0, 0, 0, 0, 0, 0, 0, 0, 24, 3267675904, 0, 48, 2240384513,
      0, 96, 185801731, 48, 2240384705, 371603462, 0, 384, 743206924, 240, 2477765895,
      1486413896, 2392494594, 1536, 2972827888, 371604422, 1321128990, 1650688161, 371603462,
      6336, 3537975492, 3840, 989548665, 2307785957, 3803855915, 24768, 87701453, 1950713159,
      3667138029, 641206806, 1650688929, 1321161950, 943043659, 62976, 512018339, 2564836760,
      1696405152, 1650822305, 1166361814, 1146637495, 2074109465, 1669377698, 182801001,
      1652246945, 2094292125, 983040, 4216354106, 3966199272, 3124505570, 6340608, 976735493,
      1166362356, 3092880854, 940186150, 31465987, 3888919638, 3873835881, 16124416,
      1469443919, 2184054905]"
  by (simp add: sha1_schedule_def sha1_expand_numeral rotl32_def)

lemma sha1_rounds_append:
  "sha1_rounds t s (xs @ ys) = sha1_rounds (t + length xs) (sha1_rounds t s xs) ys"
  by (induction xs arbitrary: t s) (simp_all add: add.assoc add.commute)

lemma sha1_rounds_chain:
  assumes "length xs = n" and "t + n = t'" and "sha1_rounds t s xs = s'"
    and "sha1_rounds t' s' ys = r"
  shows "sha1_rounds t s (xs @ ys) = r"
  using assms by (simp add: sha1_rounds_append)

lemma sha1_rounds_abc_0:
  "sha1_rounds 0 (1732584193, 4023233417, 2562383102, 271733878, 3285377520)
     [1633837952, 0, 0, 0, 0, 0, 0, 0, 0, 0, 0, 0, 0, 0, 0, 24, 3267675904, 0, 48, 2240384513] =
     (4254997885, 3697578013, 548051402, 3550778888, 3358553483)"
  by (simp add: sha1_f_def sha1_k_def rotl32_def)

lemma sha1_rounds_abc_20:
  "sha1_rounds 20 (4254997885, 3697578013, 548051402, 3550778888, 3358553483)
     [0, 96, 185801731, 48, 2240384705, 371603462, 0, 384, 743206924, 240, 2477765895,
      1486413896, 2392494594, 1536, 2972827888, 371604422, 1321128990, 1650688161, 371603462,
      6336] =
     (853417146, 1285055493, 4145604047, 64243702, 4147047474)"
  by (simp add: sha1_f_def sha1_k_def rotl32_def)

lemma sha1_rounds_abc_40:
  "sha1_rounds 40 (853417146, 1285055493, 4145604047, 64243702, 4147047474)
     [3537975492, 3840, 989548665, 2307785957, 3803855915, 24768, 87701453, 1950713159,
      3667138029, 641206806, 1650688929, 1321161950, 943043659, 62976, 512018339, 2564836760,
      1696405152, 1650822305, 1166361814, 1146637495] =
     (1062395482, 165119485, 882425812, 4061233743, 3617133995)"
  by (simp add: sha1_f_def sha1_k_def rotl32_def)

lemma sha1_rounds_abc_60:
  "sha1_rounds 60 (1062395482, 165119485, 882425812, 4061233743, 3617133995)
     [2074109465, 1669377698, 182801001, 1652246945, 2094292125, 983040, 4216354106,
      3966199272, 3124505570, 6340608, 976735493, 1166362356, 3092880854, 940186150, 31465987,
      3888919638, 3873835881, 16124416, 1469443919, 2184054905] =
     (1112808245, 1463342561, 562251891, 1746824694, 3640522413)"
  by (simp add: sha1_f_def sha1_k_def rotl32_def)

lemma sha1_rounds_abc:
  "sha1_rounds 0 (1732584193, 4023233417, 2562383102, 271733878, 3285377520)
     [1633837952, 0, 0, 0, 0, 0, 0, 0, 0, 0, 0, 0, 0, 0, 0, 24, 3267675904, 0, 48, 2240384513,
      0, 96, 185801731, 48, 2240384705, 371603462, 0, 384, 743206924, 240, 2477765895,
      1486413896, 2392494594, 1536, 2972827888, 371604422, 1321128990, 1650688161, 371603462,
      6336, 3537975492, 3840, 989548665, 2307785957, 3803855915, 24768, 87701453, 1950713159,
      3667138029, 641206806, 1650688929, 1321161950, 943043659, 62976, 512018339, 2564836760,
      1696405152, 1650822305, 1166361814, 1146637495, 2074109465, 1669377698, 182801001,
      1652246945, 2094292125, 983040, 4216354106, 3966199272, 3124505570, 6340608, 976735493,
      1166362356, 3092880854, 940186150, 31465987, 3888919638, 3873835881, 16124416,
      1469443919, 2184054905] =
     (1112808245, 1463342561, 562251891, 1746824694, 3640522413)"
proof -
  have r40: "sha1_rounds 40 (853417146, 1285055493, 4145604047, 64243702, 4147047474)
      ([3537975492, 3840, 989548665, 2307785957, 3803855915, 24768, 87701453, 1950713159,
        3667138029, 641206806, 1650688929, 1321161950, 943043659, 62976, 512018339, 2564836760,
        1696405152, 1650822305, 1166361814, 1146637495] @
       [2074109465, 1669377698, 182801001, 1652246945, 2094292125, 983040, 4216354106,
        3966199272, 3124505570, 6340608, 976735493, 1166362356, 3092880854, 940186150,
        31465987, 3888919638, 3873835881, 16124416, 1469443919, 2184054905]) =
      (1112808245, 1463342561, 562251891, 1746824694, 3640522413)"
    by (rule sha1_rounds_chain [OF _ _ sha1_rounds_abc_40 sha1_rounds_abc_60]) simp_all
  have r20: "sha1_rounds 20 (4254997885, 3697578013, 548051402, 3550778888, 3358553483)
      ([0, 96, 185801731, 48, 2240384705, 371603462, 0, 384, 743206924, 240, 2477765895,
        1486413896, 2392494594, 1536, 2972827888, 371604422, 1321128990, 1650688161, 371603462,
        6336] @
       [3537975492, 3840, 989548665, 2307785957, 3803855915, 24768, 87701453, 1950713159,
        3667138029, 641206806, 1650688929, 1321161950, 943043659, 62976, 512018339, 2564836760,
        1696405152, 1650822305, 1166361814, 1146637495] @
       [2074109465, 1669377698, 182801001, 1652246945, 2094292125, 983040, 4216354106,
        3966199272, 3124505570, 6340608, 976735493, 1166362356, 3092880854, 940186150,
        31465987, 3888919638, 3873835881, 16124416, 1469443919, 2184054905]) =
      (1112808245, 1463342561, 562251891, 1746824694, 3640522413)"
    by (rule sha1_rounds_chain [OF _ _ sha1_rounds_abc_20 r40]) simp_all
  have r0: "sha1_rounds 0 (1732584193, 4023233417, 2562383102, 271733878, 3285377520)
      ([1633837952, 0, 0, 0, 0, 0, 0, 0, 0, 0, 0, 0, 0, 0, 0, 24, 3267675904, 0, 48, 2240384513] @
       [0, 96, 185801731, 48, 2240384705, 371603462, 0, 384, 743206924, 240, 2477765895,
        1486413896, 2392494594, 1536, 2972827888, 371604422, 1321128990, 1650688161, 371603462,
        6336] @
       [3537975492, 3840, 989548665, 2307785957, 3803855915, 24768, 87701453, 1950713159,
        3667138029, 641206806, 1650688929, 1321161950, 943043659, 62976, 512018339, 2564836760,
        1696405152, 1650822305, 1166361814, 1146637495] @
       [2074109465, 1669377698, 182801001, 1652246945, 2094292125, 983040, 4216354106,
        3966199272, 3124505570, 6340608, 976735493, 1166362356, 3092880854, 940186150,
        31465987, 3888919638, 3873835881, 16124416, 1469443919, 2184054905]) =
      (1112808245, 1463342561, 562251891, 1746824694, 3640522413)"
    by (rule sha1_rounds_chain [OF _ _ sha1_rounds_abc_0 r20]) simp_all
  then show ?thesis
    by (simp only: append_Cons append_Nil)
qed

lemma sha1_block_abc:
  "sha1_block sha1_init
     [97, 98, 99, 128, 0, 0, 0, 0, 0, 0, 0, 0, 0, 0, 0, 0, 0, 0, 0, 0, 0, 0, 0, 0, 0, 0, 0, 0,
      0, 0, 0, 0, 0, 0, 0, 0, 0, 0, 0, 0, 0, 0, 0, 0, 0, 0, 0, 0, 0, 0, 0, 0, 0, 0, 0, 0, 0, 0,
      0, 0, 0, 0, 0, 24] =
     (2845392438, 1191608682, 3124634993, 2018558572, 2630932637)"
  unfolding sha1_init_def sha1_block.simps sha1_words_abc sha1_schedule_abc sha1_rounds_abc
  by simp

lemma be_bytes_4:
  "be_bytes 4 n = [n div 16777216 mod 256, n div 65536 mod 256, n div 256 mod 256, n mod 256]"
  by (simp add: be_bytes_def upt_rec numeral_eq_Suc)

lemma sha1_abc:
  "sha1 (map of_char ''abc'') =
     [169, 153, 62, 54, 71, 6, 129, 106, 186, 62, 37, 113, 120, 80, 194, 108, 156, 208, 216, 157]"
proof -
  have one_block: "chop 64
     [97, 98, 99, 128, 0, 0, 0, 0, 0, 0, 0, 0, 0, 0, 0, 0, 0, 0, 0, 0, 0, 0, 0, 0, 0, 0, 0, 0,
      0, 0, 0, 0, 0, 0, 0, 0, 0, 0, 0, 0, 0, 0, 0, 0, 0, 0, 0, 0, 0, 0, 0, 0, 0, 0, 0, 0, 0, 0,
      0, 0, 0, 0, 0, 24] =
    [[97, 98, 99, 128, 0, 0, 0, 0, 0, 0, 0, 0, 0, 0, 0, 0, 0, 0, 0, 0, 0, 0, 0, 0, 0, 0, 0, 0,
     0, 0, 0, 0, 0, 0, 0, 0, 0, 0, 0, 0, 0, 0, 0, 0, 0, 0, 0, 0, 0, 0, 0, 0, 0, 0, 0, 0, 0, 0,
     0, 0, 0, 0, 0, 24]]"
    by simp
  show ?thesis
    unfolding sha1_def sha1_pad_abc one_block
    by (simp add: sha1_block_abc be_bytes_4)
qed

lemma sha1_base64_abc: "sha1_base64 ''abc'' = ''qZk+NkcGgWq6PiVxeFDCbJzQ2J0=''"
  unfolding sha1_base64_def sha1_abc by (simp add: b64_char_def b64_alphabet_def)

section \<open>Properties of \<^verbatim>\<open>create\<close>\<close>

lemma create_accepts_example:
  "create example_env no_faults length_request empty_state =
     (Inr example_file, created_state\<lparr>emitted := [EVENT_FILE_CREATED example_file]\<rparr>)"
  by (simp add: create_def example_env_def no_faults_def length_request_def empty_state_def
      created_state_def example_file_def fs_open_w_def writeFileInfo_def writeFileAtomic_sync_def
      fs_close_def filePath_def infoPath_def Let_def)

text \<open>
  C5, as the code has it: \<^verbatim>\<open>create\<close> rejects with \<^verbatim>\<open>INVALID_LENGTH\<close> exactly when
  neither the \<^verbatim>\<open>upload-length\<close> nor the \<^verbatim>\<open>upload-defer-length\<close> header is supplied.
  A request that supplies both is not rejected for its length.
\<close>

theorem create_invalid_length_iff_neither:
  "fails_with (fst (create e io req s)) InvalidLength \<longleftrightarrow>
     headers req ''upload-length'' = None \<and> headers req ''upload-defer-length'' = None"
  by (auto simp: create_def fails_with_def Let_def split: option.splits sum.splits)

theorem create_invalid_length_iff_neither_witness:
  "fails_with (fst (create example_env no_faults \<lparr>headers = Map.empty, body = []\<rparr> empty_state))
     InvalidLength"
  using create_invalid_length_iff_neither
    [of example_env no_faults "\<lparr>headers = Map.empty, body = []\<rparr>" empty_state]
  by simp

text \<open>
  C5 as stated fails: a request with both headers is accepted and the upload
  is created.
\<close>

theorem create_both_supplied_counterexample:
  "headers both_request ''upload-length'' \<noteq> None \<and>
   headers both_request ''upload-defer-length'' \<noteq> None \<and>
   \<not> fails_with (fst (create example_env no_faults both_request empty_state)) InvalidLength"
  by (simp add: create_def example_env_def no_faults_def both_request_def empty_state_def
      fs_open_w_def writeFileInfo_def writeFileAtomic_sync_def fs_close_def fails_with_def
      Let_def)

text \<open>
  C3, as the code has it: when the naming function throws, \<^verbatim>\<open>create\<close> rejects
  with \<^verbatim>\<open>ERRORS.FILE_WRITE_ERROR\<close>, the value of a storage write error, and
  leaves storage and notifications as they were. (The length guard runs first.)
\<close>

theorem create_naming_failure_is_write_error:
  assumes "headers req ''upload-length'' \<noteq> None \<or> headers req ''upload-defer-length'' \<noteq> None"
    and "generateFileName e req = None"
  shows "create e io req s = (Inl FILE_WRITE_ERROR, s) \<and>
         fails_with (fst (create e io req s)) StorageWriteError"
  using assms by (auto simp: create_def fails_with_def Let_def)

theorem create_naming_failure_is_write_error_witness:
  "headers length_request ''upload-length'' = Some ''10'' \<and>
   generateFileName failing_name_env length_request = None \<and>
   create failing_name_env no_faults length_request empty_state = (Inl FILE_WRITE_ERROR, empty_state) \<and>
   fails_with (fst (create failing_name_env no_faults length_request empty_state)) StorageWriteError"
proof -
  have h1: "headers length_request ''upload-length'' \<noteq> None \<or>
            headers length_request ''upload-defer-length'' \<noteq> None"
    by (simp add: length_request_def)
  have h2: "generateFileName failing_name_env length_request = None"
    by (simp add: failing_name_env_def)
  have h3: "headers length_request ''upload-length'' = Some ''10''"
    by (simp add: length_request_def)
  show ?thesis
    using h2 h3 create_naming_failure_is_write_error [OF h1 h2, of no_faults empty_state]
    by blast
qed

text \<open>
  C3 as stated fails: with a naming function that throws, the rejection is not
  of kind IdentifierGenerationError.
\<close>

theorem create_naming_failure_counterexample:
  "generateFileName failing_name_env length_request = None \<and>
   \<not> fails_with (fst (create failing_name_env no_faults length_request empty_state))
       IdentifierGenerationError"
  by (simp add: create_def failing_name_env_def length_request_def fails_with_def Let_def)

text \<open>
  C4, as the code has it. With the identifier \<open>file_id\<close> generated and \<open>file\<close> the
  record built from the request, an I/O failure in \<^verbatim>\<open>create\<close> is passed on as
  it is (its kind is the generic I/O passthrough) and nothing is notified:
  \<^item> when \<^verbatim>\<open>fs.open\<close> fails, the state is unchanged;
  \<^item> when \<^verbatim>\<open>writeFileInfo\<close> throws, the data file stays, empty, and nothing else
    has changed (the info file is as before);
  \<^item> when \<^verbatim>\<open>fs.close\<close> fails, the empty data file and the complete info file stay.
\<close>

theorem create_io_failure_passthrough:
  assumes "headers req ''upload-length'' \<noteq> None \<or> headers req ''upload-defer-length'' \<noteq> None"
    and "generateFileName e req = Some file_id"
    and "file = \<lparr>file_ident = file_id, file_upload_length = headers req ''upload-length'',
                  file_upload_defer_length = headers req ''upload-defer-length'',
                  file_upload_metadata = headers req ''upload-metadata''\<rparr>"
  shows "(fs_open_w io (filePath e file_id) (disk s) = Inl code \<longrightarrow>
            create e io req s = (Inl (SystemError code), s) \<and>
            fails_with (fst (create e io req s)) IoPassthrough) \<and>
         (fs_open_w io (filePath e file_id) (disk s) = Inr fs1 \<and>
          writeFileInfo e io file fs1 = Inl code \<longrightarrow>
            create e io req s =
              (Inl (SystemError code), s\<lparr>disk := (disk s)(filePath e file_id \<mapsto> RegFile [])\<rparr>) \<and>
            fails_with (fst (create e io req s)) IoPassthrough) \<and>
         (fs_open_w io (filePath e file_id) (disk s) = Inr fs1 \<and>
          writeFileInfo e io file fs1 = Inr fs2 \<and> fs_close io (filePath e file_id) = Some code \<longrightarrow>
            create e io req s =
              (Inl (SystemError code),
               s\<lparr>disk := (disk s)(filePath e file_id \<mapsto> RegFile [],
                                  infoPath e file_id \<mapsto> RegFile (JSON_stringify e file))\<rparr>) \<and>
            fails_with (fst (create e io req s)) IoPassthrough)"
proof -
  have open_ok: "fs1 = (disk s)(filePath e file_id \<mapsto> RegFile [])"
    if "fs_open_w io (filePath e file_id) (disk s) = Inr fs1"
    using that by (auto simp: fs_open_w_def split: option.splits node.splits)
  have info_ok: "fs2 = fs1(infoPath e file_id \<mapsto> RegFile (JSON_stringify e file))"
    if "writeFileInfo e io file fs1 = Inr fs2"
    using that assms(3)
    by (auto simp: writeFileInfo_def writeFileAtomic_sync_def split: option.splits node.splits)
  show ?thesis
    using assms open_ok info_ok
    by (auto simp: create_def fails_with_def Let_def)
qed

theorem create_io_failure_passthrough_witness:
  "create example_env (failing OpOpen ''EACCES'') length_request empty_state =
     (Inl (SystemError ''EACCES''), empty_state) \<and>
   create example_env (failing OpWriteFileAtomic ''ENOSPC'') length_request empty_state =
     (Inl (SystemError ''ENOSPC''), empty_state\<lparr>disk := [''files/f1'' \<mapsto> RegFile []]\<rparr>) \<and>
   create example_env (failing OpClose ''EIO'') length_request empty_state =
     (Inl (SystemError ''EIO''), created_state)"
proof -
  have h1: "headers length_request ''upload-length'' \<noteq> None \<or>
            headers length_request ''upload-defer-length'' \<noteq> None"
    by (simp add: length_request_def)
  have h2: "generateFileName example_env length_request = Some ''f1''"
    by (simp add: example_env_def)
  have h3: "example_file =
      \<lparr>file_ident = ''f1'', file_upload_length = headers length_request ''upload-length'',
       file_upload_defer_length = headers length_request ''upload-defer-length'',
       file_upload_metadata = headers length_request ''upload-metadata''\<rparr>"
    by (simp add: example_file_def length_request_def)
  note inst = create_io_failure_passthrough [OF h1 h2 h3]
  have a: "fs_open_w (failing OpOpen ''EACCES'') (filePath example_env ''f1'') (disk empty_state) =
             Inl ''EACCES''"
    by (simp add: fs_open_w_def failing_def no_faults_def)
  have b1: "fs_open_w (failing OpWriteFileAtomic ''ENOSPC'') (filePath example_env ''f1'')
              (disk empty_state) = Inr [''files/f1'' \<mapsto> RegFile []]"
    by (simp add: fs_open_w_def failing_def no_faults_def empty_state_def filePath_def
        example_env_def)
  have b2: "writeFileInfo example_env (failing OpWriteFileAtomic ''ENOSPC'') example_file
              [''files/f1'' \<mapsto> RegFile []] = Inl ''ENOSPC''"
    by (simp add: writeFileInfo_def writeFileAtomic_sync_def failing_def no_faults_def)
  have c1: "fs_open_w (failing OpClose ''EIO'') (filePath example_env ''f1'') (disk empty_state) =
              Inr [''files/f1'' \<mapsto> RegFile []]"
    by (simp add: fs_open_w_def failing_def no_faults_def empty_state_def filePath_def
        example_env_def)
  have c2: "writeFileInfo example_env (failing OpClose ''EIO'') example_file
              [''files/f1'' \<mapsto> RegFile []] = Inr (disk created_state)"
    by (simp add: writeFileInfo_def writeFileAtomic_sync_def failing_def no_faults_def
        created_state_def infoPath_def example_env_def example_file_def)
  have c3: "fs_close (failing OpClose ''EIO'') (filePath example_env ''f1'') = Some ''EIO''"
    by (simp add: fs_close_def failing_def no_faults_def)
  have "create example_env (failing OpOpen ''EACCES'') length_request empty_state =
          (Inl (SystemError ''EACCES''), empty_state)"
    using inst [of "failing OpOpen ''EACCES''" empty_state "''EACCES''"] a by simp
  moreover have "create example_env (failing OpWriteFileAtomic ''ENOSPC'') length_request empty_state =
          (Inl (SystemError ''ENOSPC''), empty_state\<lparr>disk := [''files/f1'' \<mapsto> RegFile []]\<rparr>)"
    using inst [of "failing OpWriteFileAtomic ''ENOSPC''" empty_state "''ENOSPC''"
        "[''files/f1'' \<mapsto> RegFile []]"] b1 b2
    by (simp add: empty_state_def filePath_def example_env_def)
  moreover have "create example_env (failing OpClose ''EIO'') length_request empty_state =
          (Inl (SystemError ''EIO''), created_state)"
    using inst [of "failing OpClose ''EIO''" empty_state "''EIO''"
        "[''files/f1'' \<mapsto> RegFile []]" "disk created_state"] c1 c2 c3
    by (simp add: empty_state_def created_state_def filePath_def infoPath_def example_env_def
        example_file_def)
  ultimately show ?thesis by simp
qed

text \<open>
  C4 as stated fails: when persisting the metadata fails, the rejection is the
  raw error, not a storage write error, and the data file that did not exist
  before the call is there afterwards, without an info file.
\<close>

theorem create_info_write_failure_counterexample:
  "\<not> fails_with (fst (create example_env (failing OpWriteFileAtomic ''ENOSPC'') length_request
        empty_state)) StorageWriteError \<and>
   disk empty_state ''files/f1'' = None \<and>
   disk (snd (create example_env (failing OpWriteFileAtomic ''ENOSPC'') length_request empty_state))
     ''files/f1'' = Some (RegFile []) \<and>
   disk (snd (create example_env (failing OpWriteFileAtomic ''ENOSPC'') length_request empty_state))
     ''files/f1.info'' = None"
  by (simp add: create_def example_env_def failing_def no_faults_def length_request_def
      empty_state_def fs_open_w_def writeFileInfo_def writeFileAtomic_sync_def fails_with_def
      filePath_def infoPath_def Let_def)

section \<open>Properties of \<^verbatim>\<open>getOffset\<close>\<close>

lemma fs_stat_absent:
  "fault io OpStat p = None \<Longrightarrow> fs_stat io p fs = Inl FILE_DOESNT_EXIST \<longleftrightarrow> fs p = None"
  by (auto simp: fs_stat_def split: option.splits node.splits)

lemma example_stringify_example_file:
  "example_stringify example_file =
     ''{'' @ quoted ''id'' @ '':'' @ quoted ''f1'' @ '','' @ quoted ''upload_length'' @ '':'' @
     quoted ''10'' @ ''}''"
  by (simp add: example_stringify_def example_file_def json_member_def)

lemma getFileInfo_vanished:
  "getFileInfo example_env no_faults ''f1'' (disk vanished_state) = example_config"
  by (simp add: getFileInfo_def readFileSync_def no_faults_def infoPath_def example_env_def
      vanished_state_def example_parse_def)

text \<open>
  C6: the rejections of \<^verbatim>\<open>getOffset\<close>, in the order the callback of \<^verbatim>\<open>fs.stat\<close>
  tests them. \<^verbatim>\<open>fs.stat\<close> answers \<^verbatim>\<open>ENOENT\<close> when the data file is absent; a
  metadata record is present when \<^verbatim>\<open>getFileInfo\<close> returns a truthy value.
  \<^item> \<^verbatim>\<open>ENOENT\<close> with a record: \<^verbatim>\<open>FILE_NO_LONGER_EXISTS\<close> (ArtifactVanished);
  \<^item> \<^verbatim>\<open>ENOENT\<close> without a record: \<^verbatim>\<open>FILE_NOT_FOUND\<close> (NotFound);
  \<^item> the path is a directory: \<^verbatim>\<open>FILE_NOT_FOUND\<close> (NotFound);
  \<^item> any other error of \<^verbatim>\<open>fs.stat\<close> is passed on as it is.
\<close>

theorem getOffset_error_mapping:
  "(fs_stat io (filePath e file_id) (disk s) = Inl FILE_DOESNT_EXIST \<and>
    truthy (getFileInfo e io file_id (disk s)) \<longrightarrow>
      getOffset e io file_id s = Inl FILE_NO_LONGER_EXISTS \<and>
      fails_with (getOffset e io file_id s) ArtifactVanished) \<and>
   (fs_stat io (filePath e file_id) (disk s) = Inl FILE_DOESNT_EXIST \<and>
    \<not> truthy (getFileInfo e io file_id (disk s)) \<longrightarrow>
      getOffset e io file_id s = Inl FILE_NOT_FOUND \<and>
      fails_with (getOffset e io file_id s) NotFound) \<and>
   (fs_stat io (filePath e file_id) (disk s) = Inr st \<and> isDirectory st \<longrightarrow>
      getOffset e io file_id s = Inl FILE_NOT_FOUND \<and>
      fails_with (getOffset e io file_id s) NotFound) \<and>
   (fs_stat io (filePath e file_id) (disk s) = Inl code \<and> code \<noteq> FILE_DOESNT_EXIST \<longrightarrow>
      getOffset e io file_id s = Inl (SystemError code) \<and>
      fails_with (getOffset e io file_id s) IoPassthrough)"
  by (simp add: getOffset_def fails_with_def Let_def)

theorem getOffset_error_mapping_witness:
  "getOffset example_env no_faults ''f1'' vanished_state = Inl FILE_NO_LONGER_EXISTS \<and>
   getOffset example_env no_faults ''f1'' empty_state = Inl FILE_NOT_FOUND \<and>
   getOffset example_env no_faults ''f1'' directory_state = Inl FILE_NOT_FOUND \<and>
   getOffset example_env (failing OpStat ''EACCES'') ''f1'' created_state =
     Inl (SystemError ''EACCES'')"
proof -
  have a1: "fs_stat no_faults (filePath example_env ''f1'') (disk vanished_state) =
              Inl FILE_DOESNT_EXIST"
    by (simp add: fs_stat_def no_faults_def filePath_def example_env_def vanished_state_def)
  have a2: "truthy (getFileInfo example_env no_faults ''f1'' (disk vanished_state))"
    by (simp add: getFileInfo_vanished example_config_def)
  have b1: "fs_stat no_faults (filePath example_env ''f1'') (disk empty_state) =
              Inl FILE_DOESNT_EXIST"
    by (simp add: fs_stat_def no_faults_def empty_state_def)
  have b2: "\<not> truthy (getFileInfo example_env no_faults ''f1'' (disk empty_state))"
    by (simp add: getFileInfo_def readFileSync_def no_faults_def empty_state_def)
  have c1: "fs_stat no_faults (filePath example_env ''f1'') (disk directory_state) =
              Inr (Stats True 0)"
    by (simp add: fs_stat_def no_faults_def filePath_def example_env_def directory_state_def)
  have d1: "fs_stat (failing OpStat ''EACCES'') (filePath example_env ''f1'') (disk created_state) =
              Inl ''EACCES''"
    by (simp add: fs_stat_def failing_def no_faults_def)
  have d2: "''EACCES'' \<noteq> FILE_DOESNT_EXIST"
    by (simp add: FILE_DOESNT_EXIST_def)
  have "getOffset example_env no_faults ''f1'' vanished_state = Inl FILE_NO_LONGER_EXISTS"
    using getOffset_error_mapping [of no_faults example_env "''f1''" vanished_state] a1 a2
    by blast
  moreover have "getOffset example_env no_faults ''f1'' empty_state = Inl FILE_NOT_FOUND"
    using getOffset_error_mapping [of no_faults example_env "''f1''" empty_state] b1 b2
    by blast
  moreover have "getOffset example_env no_faults ''f1'' directory_state = Inl FILE_NOT_FOUND"
    using getOffset_error_mapping
      [of no_faults example_env "''f1''" directory_state "Stats True 0"] c1
    by simp
  moreover have "getOffset example_env (failing OpStat ''EACCES'') ''f1'' created_state =
      Inl (SystemError ''EACCES'')"
    using getOffset_error_mapping
      [of "failing OpStat ''EACCES''" example_env "''f1''" created_state _ "''EACCES''"] d1 d2
    by blast
  ultimately show ?thesis by blast
qed

text \<open>
  C10: when the data file is a regular file whose status can be read, and the
  info file is absent or holds text that \<^verbatim>\<open>JSON.parse\<close> refuses, \<^verbatim>\<open>getOffset\<close>
  resolves: with the status object alone, whose size is the length of the
  data file; nothing is assigned over it (\<open>config\<close> is \<^verbatim>\<open>null\<close>).
\<close>

theorem getOffset_without_metadata:
  assumes "fault io OpStat (filePath e file_id) = None"
    and "disk s (filePath e file_id) = Some (RegFile data)"
    and "disk s (infoPath e file_id) = None \<or>
         (\<exists>b. disk s (infoPath e file_id) = Some (RegFile b) \<and> JSON_parse e b = None)"
  shows "getOffset e io file_id s = Inr \<lparr>stats = Stats False (length data), assigned = JNull\<rparr>"
proof -
  have "getFileInfo e io file_id (disk s) = JNull"
    using assms(3)
    by (auto simp: getFileInfo_def readFileSync_def split: option.splits node.splits)
  moreover have "fs_stat io (filePath e file_id) (disk s) = Inr (Stats False (length data))"
    using assms(1,2) by (simp add: fs_stat_def)
  ultimately show ?thesis
    by (simp add: getOffset_def)
qed

theorem getOffset_without_metadata_witness:
  "getOffset example_env no_faults ''f1'' data_only_state =
     Inr \<lparr>stats = Stats False 5, assigned = JNull\<rparr> \<and>
   getOffset example_env no_faults ''f1'' garbled_info_state =
     Inr \<lparr>stats = Stats False 5, assigned = JNull\<rparr>"
proof -
  have f: "fault no_faults OpStat (filePath example_env ''f1'') = None"
    by (simp add: no_faults_def)
  have a1: "disk data_only_state (filePath example_env ''f1'') = Some (RegFile ''hello'')"
    by (simp add: data_only_state_def filePath_def example_env_def)
  have a2: "disk data_only_state (infoPath example_env ''f1'') = None \<or>
      (\<exists>b. disk data_only_state (infoPath example_env ''f1'') = Some (RegFile b) \<and>
           JSON_parse example_env b = None)"
    by (simp add: data_only_state_def infoPath_def example_env_def)
  have b1: "disk garbled_info_state (filePath example_env ''f1'') = Some (RegFile ''hello'')"
    by (simp add: garbled_info_state_def filePath_def example_env_def)
  have b2: "disk garbled_info_state (infoPath example_env ''f1'') = None \<or>
      (\<exists>b. disk garbled_info_state (infoPath example_env ''f1'') = Some (RegFile b) \<and>
           JSON_parse example_env b = None)"
    by (simp add: garbled_info_state_def infoPath_def example_env_def example_parse_def
        example_stringify_example_file)
  show ?thesis
    using getOffset_without_metadata [OF f a1 a2] getOffset_without_metadata [OF f b1 b2]
    by simp
qed

section \<open>Properties of \<^verbatim>\<open>write\<close>\<close>

text \<open>The three paths of an upload are different, and a call touches two of them.\<close>

lemma tmp_neq_path: "p @ ''.tmp'' \<noteq> p"
  by simp

lemma info_neq_path: "infoPath e file_id \<noteq> filePath e file_id"
  by (simp add: infoPath_def filePath_def)

lemma info_neq_tmp: "infoPath e other \<noteq> filePath e file_id @ ''.tmp''"
proof
  assume "infoPath e other = filePath e file_id @ ''.tmp''"
  then have "last (infoPath e other) = last (filePath e file_id @ ''.tmp'')"
    by simp
  then show False
    by (simp add: infoPath_def filePath_def)
qed

lemma createWriteStream_w_other:
  "q \<noteq> p \<Longrightarrow> snd (createWriteStream_w io p d fs) q = fs q"
  by (simp add: createWriteStream_w_def split: option.splits node.splits)

lemma createWriteStream_w_finished:
  "createWriteStream_w io p d fs = (None, fs1) \<Longrightarrow> fs1 = fs(p \<mapsto> RegFile d)"
  by (auto simp: createWriteStream_w_def split: option.splits node.splits)

lemma createWriteStream_rplus_other:
  "q \<noteq> p \<Longrightarrow> snd (createWriteStream_rplus io p start d fs) q = fs q"
  by (simp add: createWriteStream_rplus_def split: option.splits node.splits)

lemma createWriteStream_rplus_finished:
  "createWriteStream_rplus io p start d fs = (None, fs2) \<Longrightarrow>
     \<exists>old. fs p = Some (RegFile old) \<and> fs2 = fs(p \<mapsto> RegFile (pwrite old start d))"
  by (auto simp: createWriteStream_rplus_def split: option.splits node.splits)

lemma fs_unlink_other: "q \<noteq> p \<Longrightarrow> fs_unlink io p fs q = fs q"
  by (simp add: fs_unlink_def split: option.splits node.splits)

lemma getFileInfo_same:
  "fs (infoPath e file_id) = fs' (infoPath e file_id) \<Longrightarrow>
     getFileInfo e io file_id fs = getFileInfo e io file_id fs'"
  by (simp add: getFileInfo_def readFileSync_def split: option.splits)

lemma write_disk_other:
  assumes "q \<noteq> filePath e file_id" and "q \<noteq> filePath e file_id @ ''.tmp''"
  shows "disk (snd (write e io req file_id offset s)) q = disk s q"
proof -
  obtain r1 fs1 where st: "createWriteStream_w io (filePath e file_id @ ''.tmp'')
      (concat (body req)) (disk s) = (r1, fs1)"
    by (cases "createWriteStream_w io (filePath e file_id @ ''.tmp'') (concat (body req)) (disk s)")
  have f1: "fs1 q = disk s q"
    using createWriteStream_w_other [OF assms(2), of io "concat (body req)" "disk s"] st by simp
  obtain r2 fs2 where cm: "createWriteStream_rplus io (filePath e file_id) offset
      (concat (body req)) fs1 = (r2, fs2)"
    by (cases "createWriteStream_rplus io (filePath e file_id) offset (concat (body req)) fs1")
  have f2: "fs2 q = fs1 q"
    using createWriteStream_rplus_other [OF assms(1), of io offset "concat (body req)" fs1] cm
    by simp
  have f3: "fs_unlink io (filePath e file_id @ ''.tmp'') fs2 q = fs2 q"
    by (rule fs_unlink_other [OF assms(2)])
  show ?thesis
    using st cm f1 f2 f3
    by (simp add: write_def Let_def split: option.splits)
qed

lemma info_unchanged_by_write:
  "disk (snd (write e io req file_id offset s)) (infoPath e file_id) = disk s (infoPath e file_id)"
  by (rule write_disk_other [OF info_neq_path info_neq_tmp])

lemma getFileInfo_after_write:
  "getFileInfo e io' file_id (disk (snd (write e io req file_id offset s))) =
     getFileInfo e io' file_id (disk s)"
  by (rule getFileInfo_same) (rule info_unchanged_by_write)

lemma write_emitted:
  "emitted (snd (write e io req file_id offset s)) =
     (if (\<exists>n. fst (write e io req file_id offset s) = Inr n) \<and>
         upload_complete (getFileInfo e io file_id (disk s))
           (offset + sum_list (map length (body req)))
      then emitted s @ [EVENT_UPLOAD_COMPLETE (getFileInfo e io file_id (disk s))]
      else emitted s)"
proof -
  obtain r1 fs1 where st: "createWriteStream_w io (filePath e file_id @ ''.tmp'')
      (concat (body req)) (disk s) = (r1, fs1)"
    by (cases "createWriteStream_w io (filePath e file_id @ ''.tmp'') (concat (body req)) (disk s)")
  obtain r2 fs2 where cm: "createWriteStream_rplus io (filePath e file_id) offset
      (concat (body req)) fs1 = (r2, fs2)"
    by (cases "createWriteStream_rplus io (filePath e file_id) offset (concat (body req)) fs1")
  have "fs1 (infoPath e file_id) = disk s (infoPath e file_id)"
    using st createWriteStream_w_other [of "infoPath e file_id" "filePath e file_id @ ''.tmp''"
        io "concat (body req)" "disk s"]
    by (simp add: info_neq_tmp)
  moreover have "fs2 (infoPath e file_id) = fs1 (infoPath e file_id)"
    using cm createWriteStream_rplus_other [of "infoPath e file_id" "filePath e file_id"
        io offset "concat (body req)" fs1]
    by (simp add: info_neq_path)
  ultimately have gi: "getFileInfo e io file_id fs2 = getFileInfo e io file_id (disk s)"
    by (intro getFileInfo_same) simp
  show ?thesis
  proof (cases r1)
    case (Some err)
    then show ?thesis using st by (simp add: write_def)
  next
    case None
    note r1 = this
    show ?thesis
    proof (cases "verify_checksum req (concat (body req))")
      case (Some rejection)
      then show ?thesis using st r1 by (simp add: write_def)
    next
      case None
      note vc = this
      show ?thesis
      proof (cases r2)
        case (Some err)
        then show ?thesis using st r1 vc cm by (simp add: write_def)
      next
        case None
        then show ?thesis using st r1 vc cm gi by (simp add: write_def Let_def)
      qed
    qed
  qed
qed

lemma write_result:
  "fst (write e io req file_id offset s) = Inr n \<Longrightarrow>
     n = offset + sum_list (map length (body req))"
  by (auto simp: write_def Let_def split: option.splits prod.splits)

lemma write_no_faults:
  assumes "disk s (filePath e file_id) = Some (RegFile old)"
    and "disk s (filePath e file_id @ ''.tmp'') \<noteq> Some Directory"
    and "verify_checksum req (concat (body req)) = None"
  shows "write e no_faults req file_id offset s =
     (Inr (offset + length (concat (body req))),
      \<lparr>disk = (disk s)(filePath e file_id @ ''.tmp'' \<mapsto> RegFile (concat (body req)),
                        filePath e file_id \<mapsto> RegFile (pwrite old offset (concat (body req))),
                        filePath e file_id @ ''.tmp'' := None),
       emitted =
         (if upload_complete (getFileInfo e no_faults file_id (disk s))
               (offset + length (concat (body req)))
          then emitted s @ [EVENT_UPLOAD_COMPLETE (getFileInfo e no_faults file_id (disk s))]
          else emitted s)\<rparr>)"
proof -
  let ?tmp = "filePath e file_id @ ''.tmp''"
  let ?staged = "concat (body req)"
  have st: "createWriteStream_w no_faults ?tmp ?staged (disk s) =
      (None, (disk s)(?tmp \<mapsto> RegFile ?staged))"
    using assms(2)
    by (auto simp: createWriteStream_w_def no_faults_def split: option.splits node.splits)
  have cm: "createWriteStream_rplus no_faults (filePath e file_id) offset ?staged
      ((disk s)(?tmp \<mapsto> RegFile ?staged)) =
      (None, (disk s)(?tmp \<mapsto> RegFile ?staged,
                      filePath e file_id \<mapsto> RegFile (pwrite old offset ?staged)))"
    using assms(1) by (simp add: createWriteStream_rplus_def no_faults_def)
  have ul: "fs_unlink no_faults ?tmp
      ((disk s)(?tmp \<mapsto> RegFile ?staged,
                filePath e file_id \<mapsto> RegFile (pwrite old offset ?staged))) =
      (disk s)(?tmp \<mapsto> RegFile ?staged,
               filePath e file_id \<mapsto> RegFile (pwrite old offset ?staged), ?tmp := None)"
    by (simp add: fs_unlink_def no_faults_def)
  have gi: "getFileInfo e no_faults file_id
      ((disk s)(?tmp \<mapsto> RegFile ?staged,
                filePath e file_id \<mapsto> RegFile (pwrite old offset ?staged))) =
      getFileInfo e no_faults file_id (disk s)"
    by (rule getFileInfo_same) (simp add: info_neq_path info_neq_tmp)
  show ?thesis
    using st cm ul gi assms(3)
    by (simp add: write_def Let_def length_concat)
qed

lemma pwrite_at_start: "d \<noteq> [] \<Longrightarrow> pwrite old 0 d = d @ drop (length d) old"
  by (simp add: pwrite_def)




lemma write_stage_failed:
  "createWriteStream_w io (filePath e file_id @ ''.tmp'') (concat (body req)) (disk s) =
     (Some err, fs1) \<Longrightarrow>
   write e io req file_id offset s = (Inl FILE_WRITE_ERROR, s\<lparr>disk := fs1\<rparr>)"
  by (simp add: write_def)

lemma write_rejected:
  "createWriteStream_w io (filePath e file_id @ ''.tmp'') (concat (body req)) (disk s) =
     (None, fs1) \<Longrightarrow>
   verify_checksum req (concat (body req)) = Some rejection \<Longrightarrow>
   write e io req file_id offset s = (Inl rejection, s\<lparr>disk := fs1\<rparr>)"
  by (simp add: write_def)

lemma staging_keeps_data_file:
  "snd (createWriteStream_w io (filePath e file_id @ ''.tmp'') d fs) (filePath e file_id) =
     fs (filePath e file_id)"
  by (rule createWriteStream_w_other) simp

text \<open>
  C8, as the code has it: when the first word of the \<^verbatim>\<open>upload-checksum\<close> header
  is not \<^verbatim>\<open>sha1\<close>, a write call whose staging stream finishes rejects with
  \<^verbatim>\<open>CHECKSUM_ALGORITHM_UNSUPPORTED\<close>; whether staging finishes or not, the call
  never rejects with \<^verbatim>\<open>CHECKSUM_MISMATCH\<close>, and the data file and the
  notifications are as before the call.
\<close>

theorem write_unsupported_algorithm:
  assumes "headers req ''upload-checksum'' = Some upload_checksum"
    and "at_index (split_space upload_checksum) 0 \<noteq> Some ''sha1''"
  shows "(fst (createWriteStream_w io (filePath e file_id @ ''.tmp'') (concat (body req)) (disk s))
            = None \<longrightarrow>
          fst (write e io req file_id offset s) = Inl CHECKSUM_ALGORITHM_UNSUPPORTED \<and>
          fails_with (fst (write e io req file_id offset s)) ChecksumAlgorithmUnsupported) \<and>
         \<not> fails_with (fst (write e io req file_id offset s)) ChecksumMismatch \<and>
         disk (snd (write e io req file_id offset s)) (filePath e file_id) =
           disk s (filePath e file_id) \<and>
         emitted (snd (write e io req file_id offset s)) = emitted s"
proof -
  have vc: "verify_checksum req (concat (body req)) = Some CHECKSUM_ALGORITHM_UNSUPPORTED"
    using assms by (simp add: verify_checksum_def)
  obtain r1 fs1 where st: "createWriteStream_w io (filePath e file_id @ ''.tmp'')
      (concat (body req)) (disk s) = (r1, fs1)"
    by (cases "createWriteStream_w io (filePath e file_id @ ''.tmp'') (concat (body req)) (disk s)")
  have keep: "fs1 (filePath e file_id) = disk s (filePath e file_id)"
    using staging_keeps_data_file [of io e file_id "concat (body req)" "disk s"] st by simp
  show ?thesis
  proof (cases r1)
    case None
    then show ?thesis
      using st keep write_rejected [OF _ vc, of io e file_id s fs1 offset]
      by (simp add: fails_with_def)
  next
    case (Some err)
    then show ?thesis
      using st keep write_stage_failed [of io e file_id req s err fs1 offset]
      by (simp add: fails_with_def)
  qed
qed

theorem write_unsupported_algorithm_witness:
  "headers abc_md5_request ''upload-checksum'' = Some ''md5 kAFQmDzST7DWlj99KOF/cg=='' \<and>
   at_index (split_space ''md5 kAFQmDzST7DWlj99KOF/cg=='') 0 = Some ''md5'' \<and>
   fst (write example_env no_faults abc_md5_request ''f1'' 0 created_state) =
     Inl CHECKSUM_ALGORITHM_UNSUPPORTED \<and>
   disk (snd (write example_env no_faults abc_md5_request ''f1'' 0 created_state)) ''files/f1'' =
     Some (RegFile [])"
proof -
  have h1: "headers abc_md5_request ''upload-checksum'' = Some ''md5 kAFQmDzST7DWlj99KOF/cg==''"
    by (simp add: abc_md5_request_def)
  have h2: "at_index (split_space ''md5 kAFQmDzST7DWlj99KOF/cg=='') 0 = Some ''md5''"
    by (simp add: at_index_def)
  have h2': "at_index (split_space ''md5 kAFQmDzST7DWlj99KOF/cg=='') 0 \<noteq> Some ''sha1''"
    by (simp add: at_index_def)
  have st: "fst (createWriteStream_w no_faults (filePath example_env ''f1'' @ ''.tmp'')
      (concat (body abc_md5_request)) (disk created_state)) = None"
    by (simp add: createWriteStream_w_def no_faults_def filePath_def example_env_def
        created_state_def)
  have p: "filePath example_env ''f1'' = ''files/f1''"
    by (simp add: filePath_def example_env_def)
  have d: "disk created_state ''files/f1'' = Some (RegFile [])"
    by (simp add: created_state_def)
  show ?thesis
    using h1 h2 st d
      write_unsupported_algorithm [OF h1 h2', of no_faults example_env "''f1''" created_state 0]
    by (simp add: p)
qed

text \<open>
  C8 as stated fails: the header is read only when the staging stream has
  finished. With a directory in the place of the staged file, or with the disk
  full while staging, the call with an \<^verbatim>\<open>md5\<close> header rejects with
  \<^verbatim>\<open>FILE_WRITE_ERROR\<close>, a storage write error.
\<close>

theorem write_unsupported_algorithm_staging_counterexample:
  "headers abc_md5_request ''upload-checksum'' = Some ''md5 kAFQmDzST7DWlj99KOF/cg=='' \<and>
   at_index (split_space ''md5 kAFQmDzST7DWlj99KOF/cg=='') 0 = Some ''md5'' \<and>
   fst (write example_env no_faults abc_md5_request ''f1'' 0 staging_blocked_state) =
     Inl FILE_WRITE_ERROR \<and>
   \<not> fails_with (fst (write example_env no_faults abc_md5_request ''f1'' 0 staging_blocked_state))
       ChecksumAlgorithmUnsupported \<and>
   fst (write example_env (failing OpStreamWrite ''ENOSPC'') abc_md5_request ''f1'' 0 created_state) =
     Inl FILE_WRITE_ERROR \<and>
   \<not> fails_with
       (fst (write example_env (failing OpStreamWrite ''ENOSPC'') abc_md5_request ''f1'' 0
          created_state))
       ChecksumAlgorithmUnsupported"
proof -
  have h1: "headers abc_md5_request ''upload-checksum'' = Some ''md5 kAFQmDzST7DWlj99KOF/cg==''"
    by (simp add: abc_md5_request_def)
  have h2: "at_index (split_space ''md5 kAFQmDzST7DWlj99KOF/cg=='') 0 = Some ''md5''"
    by (simp add: at_index_def)
  have a: "fst (write example_env no_faults abc_md5_request ''f1'' 0 staging_blocked_state) =
      Inl FILE_WRITE_ERROR"
    by (simp add: write_def createWriteStream_w_def no_faults_def filePath_def example_env_def
        staging_blocked_state_def Let_def)
  have b: "fst (write example_env (failing OpStreamWrite ''ENOSPC'') abc_md5_request ''f1'' 0
      created_state) = Inl FILE_WRITE_ERROR"
    by (simp add: write_def createWriteStream_w_def failing_def no_faults_def filePath_def
        example_env_def created_state_def Let_def)
  have c: "\<not> fails_with (Inl FILE_WRITE_ERROR :: error + nat) ChecksumAlgorithmUnsupported"
    by (simp add: fails_with_def)
  show ?thesis
    unfolding a b using h1 h2 c by blast
qed

text \<open>
  C1, what the code does: when the header names \<^verbatim>\<open>sha1\<close> and its second word is not
  the digest of the staged bytes, a write call whose staging stream has
  finished rejects with \<^verbatim>\<open>CHECKSUM_MISMATCH\<close> and leaves the data file and the
  notifications as they were. The staged file is not removed: it is still
  there after the call, holding the staged bytes.
\<close>

theorem write_checksum_mismatch_leaves_staged_file:
  assumes "headers req ''upload-checksum'' = Some upload_checksum"
    and "at_index (split_space upload_checksum) 0 = Some ''sha1''"
    and "at_index (split_space upload_checksum) 1 \<noteq> Some (calculateSHA1File (concat (body req)))"
    and "fst (createWriteStream_w io (filePath e file_id @ ''.tmp'') (concat (body req)) (disk s))
           = None"
  shows "fst (write e io req file_id offset s) = Inl CHECKSUM_MISMATCH \<and>
         fails_with (fst (write e io req file_id offset s)) ChecksumMismatch \<and>
         disk (snd (write e io req file_id offset s)) (filePath e file_id) =
           disk s (filePath e file_id) \<and>
         emitted (snd (write e io req file_id offset s)) = emitted s \<and>
         disk (snd (write e io req file_id offset s)) (filePath e file_id @ ''.tmp'') =
           Some (RegFile (concat (body req)))"
proof -
  have vc: "verify_checksum req (concat (body req)) = Some CHECKSUM_MISMATCH"
    using assms(1-3) by (simp add: verify_checksum_def)
  obtain fs1 where st: "createWriteStream_w io (filePath e file_id @ ''.tmp'')
      (concat (body req)) (disk s) = (None, fs1)"
    using assms(4)
    by (cases "createWriteStream_w io (filePath e file_id @ ''.tmp'') (concat (body req)) (disk s)")
      simp
  have fs1: "fs1 = (disk s)(filePath e file_id @ ''.tmp'' \<mapsto> RegFile (concat (body req)))"
    by (rule createWriteStream_w_finished [OF st])
  show ?thesis
    by (simp add: write_rejected [OF st vc] fails_with_def fs1)
qed

theorem write_checksum_mismatch_leaves_staged_file_witness:
  "fst (write example_env no_faults abc_wrong_digest_request ''f1'' 0 created_state) =
     Inl CHECKSUM_MISMATCH \<and>
   disk (snd (write example_env no_faults abc_wrong_digest_request ''f1'' 0 created_state))
     ''files/f1'' = Some (RegFile []) \<and>
   disk created_state ''files/f1.tmp'' = None \<and>
   disk (snd (write example_env no_faults abc_wrong_digest_request ''f1'' 0 created_state))
     ''files/f1.tmp'' = Some (RegFile ''abc'')"
proof -
  have h1: "headers abc_wrong_digest_request ''upload-checksum'' =
      Some ''sha1 2jmj7l5rSw0yVb/vlWAYkK/YBwk=''"
    by (simp add: abc_wrong_digest_request_def)
  have h2: "at_index (split_space ''sha1 2jmj7l5rSw0yVb/vlWAYkK/YBwk='') 0 = Some ''sha1''"
    by (simp add: at_index_def)
  have h3: "at_index (split_space ''sha1 2jmj7l5rSw0yVb/vlWAYkK/YBwk='') 1 \<noteq>
      Some (calculateSHA1File (concat (body abc_wrong_digest_request)))"
    by (simp add: at_index_def calculateSHA1File_def abc_wrong_digest_request_def sha1_base64_abc)
  have st: "fst (createWriteStream_w no_faults (filePath example_env ''f1'' @ ''.tmp'')
      (concat (body abc_wrong_digest_request)) (disk created_state)) = None"
    by (simp add: createWriteStream_w_def no_faults_def filePath_def example_env_def
        created_state_def)
  have p: "filePath example_env ''f1'' = ''files/f1''"
    by (simp add: filePath_def example_env_def)
  have d: "disk created_state ''files/f1'' = Some (RegFile []) \<and>
      disk created_state ''files/f1.tmp'' = None"
    by (simp add: created_state_def)
  have b: "concat (body abc_wrong_digest_request) = ''abc''"
    by (simp add: abc_wrong_digest_request_def)
  show ?thesis
    using d write_checksum_mismatch_leaves_staged_file [OF h1 h2 h3 st, of 0]
    by (simp add: p b)
qed

lemma verify_checksum_abc:
  assumes "headers req ''upload-checksum'' = Some ''sha1 qZk+NkcGgWq6PiVxeFDCbJzQ2J0=''"
  shows "verify_checksum req ''abc'' = None"
  using assms by (simp add: verify_checksum_def at_index_def calculateSHA1File_def sha1_base64_abc)

text \<open>
  C7: a write call that resolves, resolves with the starting offset plus the
  number of bytes the request delivered (the sum of the buffer lengths, which
  is the length of the staged bytes). And the example: on an upload whose data
  file exists, with no I/O failure, the body \<^verbatim>\<open>abc\<close> at offset 0 under the header
  \<^verbatim>\<open>sha1 qZk+NkcGgWq6PiVxeFDCbJzQ2J0=\<close> (the SHA-1 of \<^verbatim>\<open>abc\<close> in base64)
  resolves with 3, and the data file then starts with \<^verbatim>\<open>abc\<close>.
\<close>

theorem write_returns_new_offset:
  "(fst (write e io req file_id offset s) = Inr n \<longrightarrow>
      n = offset + sum_list (map length (body req)) \<and>
      n = offset + length (concat (body req))) \<and>
   (disk s (filePath e file_id) = Some (RegFile old) \<and>
    disk s (filePath e file_id @ ''.tmp'') \<noteq> Some Directory \<and>
    concat (body req) = ''abc'' \<and>
    headers req ''upload-checksum'' = Some ''sha1 qZk+NkcGgWq6PiVxeFDCbJzQ2J0='' \<longrightarrow>
      fst (write e no_faults req file_id 0 s) = Inr 3 \<and>
      disk (snd (write e no_faults req file_id 0 s)) (filePath e file_id) =
        Some (RegFile (''abc'' @ drop 3 old)))"
proof (intro conjI impI)
  assume "fst (write e io req file_id offset s) = Inr n"
  then show "n = offset + sum_list (map length (body req))"
    by (rule write_result)
  then show "n = offset + length (concat (body req))"
    by (simp add: length_concat)
next
  assume a: "disk s (filePath e file_id) = Some (RegFile old) \<and>
    disk s (filePath e file_id @ ''.tmp'') \<noteq> Some Directory \<and>
    concat (body req) = ''abc'' \<and>
    headers req ''upload-checksum'' = Some ''sha1 qZk+NkcGgWq6PiVxeFDCbJzQ2J0=''"
  then have vc: "verify_checksum req (concat (body req)) = None"
    by (simp add: verify_checksum_abc)
  have w: "write e no_faults req file_id 0 s =
     (Inr (0 + length (concat (body req))),
      \<lparr>disk = (disk s)(filePath e file_id @ ''.tmp'' \<mapsto> RegFile (concat (body req)),
                        filePath e file_id \<mapsto> RegFile (pwrite old 0 (concat (body req))),
                        filePath e file_id @ ''.tmp'' := None),
       emitted =
         (if upload_complete (getFileInfo e no_faults file_id (disk s))
               (0 + length (concat (body req)))
          then emitted s @ [EVENT_UPLOAD_COMPLETE (getFileInfo e no_faults file_id (disk s))]
          else emitted s)\<rparr>)"
    using a by (intro write_no_faults vc) simp_all
  show "fst (write e no_faults req file_id 0 s) = Inr 3"
    using a by (simp add: w)
  show "disk (snd (write e no_faults req file_id 0 s)) (filePath e file_id) =
        Some (RegFile (''abc'' @ drop 3 old))"
    using a by (simp add: w pwrite_at_start eval_nat_numeral)
qed

theorem write_returns_new_offset_witness:
  "fst (write example_env no_faults abc_sha1_request ''f1'' 0 created_state) = Inr 3 \<and>
   3 = 0 + sum_list (map length (body abc_sha1_request)) \<and>
   disk (snd (write example_env no_faults abc_sha1_request ''f1'' 0 created_state)) ''files/f1'' =
     Some (RegFile ''abc'')"
proof -
  have p: "filePath example_env ''f1'' = ''files/f1''"
    by (simp add: filePath_def example_env_def)
  have h: "disk created_state (filePath example_env ''f1'') = Some (RegFile []) \<and>
    disk created_state (filePath example_env ''f1'' @ ''.tmp'') \<noteq> Some Directory \<and>
    concat (body abc_sha1_request) = ''abc'' \<and>
    headers abc_sha1_request ''upload-checksum'' = Some ''sha1 qZk+NkcGgWq6PiVxeFDCbJzQ2J0=''"
    by (simp add: p created_state_def abc_sha1_request_def)
  note inst = write_returns_new_offset
    [of example_env no_faults abc_sha1_request "''f1''" 0 created_state 3 "[]"]
  have r: "fst (write example_env no_faults abc_sha1_request ''f1'' 0 created_state) = Inr 3"
    using inst h by blast
  have n: "3 = 0 + sum_list (map length (body abc_sha1_request))"
    using inst r by blast
  have d: "disk (snd (write example_env no_faults abc_sha1_request ''f1'' 0 created_state))
      (filePath example_env ''f1'') = Some (RegFile (''abc'' @ drop 3 []))"
    using inst h by blast
  show ?thesis
    using r n d by (simp add: p)
qed

section \<open>The completion notification over the calls of an upload\<close>

lemma parseInt_10: "parseInt ''10'' = Some 10"
  by (simp add: parseInt_def is_js_space_def is_digit_def digits_value_def)

lemma upload_complete_JNull: "\<not> upload_complete JNull n"
  by (simp add: upload_complete_def)

lemma getFileInfo_fault:
  "getFileInfo e io file_id fs = JNull \<or>
   getFileInfo e io file_id fs = getFileInfo e no_faults file_id fs"
  by (simp add: getFileInfo_def readFileSync_def no_faults_def split: option.splits)

lemma upload_complete_without_faults:
  "upload_complete (getFileInfo e io file_id fs) n \<Longrightarrow>
   upload_complete (getFileInfo e no_faults file_id fs) n"
  using getFileInfo_fault [of e io file_id fs] by (auto simp: upload_complete_JNull)

lemma upload_complete_unique: "upload_complete c n \<Longrightarrow> upload_complete c m \<Longrightarrow> n = m"
  by (simp add: upload_complete_def)

lemma completions_write:
  "completions (snd (write e io req file_id offset s)) \<le>
     completions s +
     (if upload_complete (getFileInfo e no_faults file_id (disk s)) (new_offset_of (io, req, offset))
      then 1 else 0)"
  using upload_complete_without_faults [of e io file_id "disk s"]
  by (auto simp: completions_def write_emitted new_offset_of_def)

lemma completions_write_sequence:
  "completions (write_sequence e file_id calls s) \<le>
     completions s +
     length (filter (\<lambda>c. upload_complete (getFileInfo e no_faults file_id (disk s))
                              (new_offset_of c)) calls)"
proof (induction calls arbitrary: s)
  case Nil
  show ?case by simp
next
  case (Cons c calls)
  obtain io req offset where c: "c = (io, req, offset)"
    by (cases c)
  let ?s' = "snd (write e io req file_id offset s)"
  have same: "getFileInfo e no_faults file_id (disk ?s') = getFileInfo e no_faults file_id (disk s)"
    by (rule getFileInfo_after_write)
  have "completions (write_sequence e file_id calls ?s') \<le>
      completions ?s' +
      length (filter (\<lambda>c. upload_complete (getFileInfo e no_faults file_id (disk s))
                               (new_offset_of c)) calls)"
    using Cons.IH [of ?s'] by (simp add: same)
  then show ?case
    using completions_write [of e io req file_id offset s] by (auto simp: c)
qed

lemma filter_at_most_one:
  assumes "distinct (map f xs)" and "\<And>x y. P x \<Longrightarrow> P y \<Longrightarrow> f x = f y"
  shows "length (filter P xs) \<le> 1"
  using assms(1)
proof (induction xs)
  case Nil
  show ?case by simp
next
  case (Cons x xs)
  show ?case
  proof (cases "P x")
    case False
    then show ?thesis using Cons by simp
  next
    case True
    have "\<not> P y" if "y \<in> set xs" for y
    proof
      assume "P y"
      then have "f x = f y" using True assms(2) by blast
      then show False using Cons.prems that by auto
    qed
    then have "filter P xs = []"
      by (simp add: filter_empty_conv)
    then show ?thesis using True by simp
  qed
qed

lemma write_no_faults_step:
  assumes "disk s (filePath e file_id) = Some (RegFile old)"
    and "disk s (filePath e file_id @ ''.tmp'') \<noteq> Some Directory"
    and "verify_checksum req (concat (body req)) = None"
  shows "fst (write e no_faults req file_id offset s) = Inr (offset + length (concat (body req)))"
    and "disk (snd (write e no_faults req file_id offset s)) (filePath e file_id) =
           Some (RegFile (pwrite old offset (concat (body req))))"
    and "disk (snd (write e no_faults req file_id offset s)) (filePath e file_id @ ''.tmp'') \<noteq>
           Some Directory"
    and "emitted (snd (write e no_faults req file_id offset s)) =
           (if upload_complete (getFileInfo e no_faults file_id (disk s))
                 (offset + length (concat (body req)))
            then emitted s @ [EVENT_UPLOAD_COMPLETE (getFileInfo e no_faults file_id (disk s))]
            else emitted s)"
  by (simp_all add: write_no_faults [OF assms])

lemma getFileInfo_created:
  "getFileInfo example_env no_faults ''f1'' (disk created_state) = example_config"
  by (simp add: getFileInfo_def readFileSync_def no_faults_def infoPath_def example_env_def
      created_state_def example_parse_def)

lemma example_config_complete: "upload_complete example_config n \<longleftrightarrow> n = 10"
  by (auto simp: upload_complete_def example_config_def ToString_opt_def parseInt_10)

lemma no_checksum_header:
  "headers req ''upload-checksum'' = None \<Longrightarrow> verify_checksum req staged = None"
  by (simp add: verify_checksum_def)

text \<open>
  C2, as the code has it. A write call notifies \<^verbatim>\<open>EVENT_UPLOAD_COMPLETE\<close> exactly
  when it resolves and the info file gives a declared length equal to its new
  offset; the store keeps no record of having notified. So over calls whose new
  offsets are pairwise different the notification comes at most once. And the
  example: with declared length 10, no checksum and no I/O failure, 4 bytes at
  offset 0 notify nothing and 6 more bytes at offset 4 notify once.
\<close>

theorem upload_complete_fires_on_reaching_length:
  "emitted (snd (write e io req file_id offset s)) =
     (if (\<exists>n. fst (write e io req file_id offset s) = Inr n) \<and>
         upload_complete (getFileInfo e io file_id (disk s))
           (offset + sum_list (map length (body req)))
      then emitted s @ [EVENT_UPLOAD_COMPLETE (getFileInfo e io file_id (disk s))]
      else emitted s) \<and>
   (distinct (map new_offset_of calls) \<longrightarrow>
      completions (write_sequence e file_id calls s) \<le> completions s + 1) \<and>
   (disk s (filePath e file_id) = Some (RegFile old) \<and>
    disk s (filePath e file_id @ ''.tmp'') \<noteq> Some Directory \<and>
    getFileInfo e no_faults file_id (disk s) = config \<and>
    truthy config \<and> get_upload_length config = Some (JString ''10'') \<and>
    headers r1 ''upload-checksum'' = None \<and> length (concat (body r1)) = 4 \<and>
    headers r2 ''upload-checksum'' = None \<and> length (concat (body r2)) = 6 \<longrightarrow>
      emitted (snd (write e no_faults r1 file_id 0 s)) = emitted s \<and>
      emitted (write_sequence e file_id [(no_faults, r1, 0), (no_faults, r2, 4)] s) =
        emitted s @ [EVENT_UPLOAD_COMPLETE config])"
proof (intro conjI impI)
  show "emitted (snd (write e io req file_id offset s)) =
     (if (\<exists>n. fst (write e io req file_id offset s) = Inr n) \<and>
         upload_complete (getFileInfo e io file_id (disk s))
           (offset + sum_list (map length (body req)))
      then emitted s @ [EVENT_UPLOAD_COMPLETE (getFileInfo e io file_id (disk s))]
      else emitted s)"
    by (rule write_emitted)
next
  assume d: "distinct (map new_offset_of calls)"
  have "length (filter (\<lambda>c. upload_complete (getFileInfo e no_faults file_id (disk s))
                               (new_offset_of c)) calls) \<le> 1"
    using d by (rule filter_at_most_one) (rule upload_complete_unique)
  then show "completions (write_sequence e file_id calls s) \<le> completions s + 1"
    using completions_write_sequence [of e file_id calls s] by linarith
next
  assume a: "disk s (filePath e file_id) = Some (RegFile old) \<and>
    disk s (filePath e file_id @ ''.tmp'') \<noteq> Some Directory \<and>
    getFileInfo e no_faults file_id (disk s) = config \<and>
    truthy config \<and> get_upload_length config = Some (JString ''10'') \<and>
    headers r1 ''upload-checksum'' = None \<and> length (concat (body r1)) = 4 \<and>
    headers r2 ''upload-checksum'' = None \<and> length (concat (body r2)) = 6"
  have complete: "upload_complete config n \<longleftrightarrow> n = 10" for n
    using a by (auto simp: upload_complete_def ToString_opt_def parseInt_10)
  have v1: "verify_checksum r1 (concat (body r1)) = None"
    and v2: "verify_checksum r2 (concat (body r2)) = None"
    using a by (simp_all add: verify_checksum_def)
  have w1: "write e no_faults r1 file_id 0 s =
     (Inr (0 + length (concat (body r1))),
      \<lparr>disk = (disk s)(filePath e file_id @ ''.tmp'' \<mapsto> RegFile (concat (body r1)),
                        filePath e file_id \<mapsto> RegFile (pwrite old 0 (concat (body r1))),
                        filePath e file_id @ ''.tmp'' := None),
       emitted =
         (if upload_complete (getFileInfo e no_faults file_id (disk s))
               (0 + length (concat (body r1)))
          then emitted s @ [EVENT_UPLOAD_COMPLETE (getFileInfo e no_faults file_id (disk s))]
          else emitted s)\<rparr>)"
    using a by (intro write_no_faults v1) simp_all
  let ?s1 = "snd (write e no_faults r1 file_id 0 s)"
  show e1: "emitted ?s1 = emitted s"
    using a by (simp add: w1 complete)
  have d1: "disk ?s1 (filePath e file_id) = Some (RegFile (pwrite old 0 (concat (body r1))))"
    and t1: "disk ?s1 (filePath e file_id @ ''.tmp'') \<noteq> Some Directory"
    by (simp_all add: w1)
  have g1: "getFileInfo e no_faults file_id (disk ?s1) = config"
    using a by (simp add: getFileInfo_after_write)
  have w2: "write e no_faults r2 file_id 4 ?s1 =
     (Inr (4 + length (concat (body r2))),
      \<lparr>disk = (disk ?s1)(filePath e file_id @ ''.tmp'' \<mapsto> RegFile (concat (body r2)),
                        filePath e file_id \<mapsto>
                          RegFile (pwrite (pwrite old 0 (concat (body r1))) 4 (concat (body r2))),
                        filePath e file_id @ ''.tmp'' := None),
       emitted =
         (if upload_complete (getFileInfo e no_faults file_id (disk ?s1))
               (4 + length (concat (body r2)))
          then emitted ?s1 @ [EVENT_UPLOAD_COMPLETE (getFileInfo e no_faults file_id (disk ?s1))]
          else emitted ?s1)\<rparr>)"
    by (intro write_no_faults d1 t1 v2)
  show "emitted (write_sequence e file_id [(no_faults, r1, 0), (no_faults, r2, 4)] s) =
        emitted s @ [EVENT_UPLOAD_COMPLETE config]"
    using a by (simp add: w2 g1 e1 complete)
qed

theorem upload_complete_fires_on_reaching_length_witness:
  "distinct (map new_offset_of two_calls) \<and>
   completions (write_sequence example_env ''f1'' two_calls created_state) \<le>
     completions created_state + 1 \<and>
   emitted (snd (write example_env no_faults four_bytes_request ''f1'' 0 created_state)) = [] \<and>
   emitted (write_sequence example_env ''f1'' two_calls created_state) =
     [EVENT_UPLOAD_COMPLETE example_config]"
proof -
  note inst = upload_complete_fires_on_reaching_length
    [of example_env no_faults four_bytes_request "''f1''" 0 created_state two_calls "[]"
      example_config four_bytes_request six_bytes_request]
  have d: "distinct (map new_offset_of two_calls)"
    by (simp add: two_calls_def new_offset_of_def four_bytes_request_def six_bytes_request_def)
  have h: "disk created_state (filePath example_env ''f1'') = Some (RegFile []) \<and>
    disk created_state (filePath example_env ''f1'' @ ''.tmp'') \<noteq> Some Directory \<and>
    getFileInfo example_env no_faults ''f1'' (disk created_state) = example_config \<and>
    truthy example_config \<and> get_upload_length example_config = Some (JString ''10'') \<and>
    headers four_bytes_request ''upload-checksum'' = None \<and>
    length (concat (body four_bytes_request)) = 4 \<and>
    headers six_bytes_request ''upload-checksum'' = None \<and>
    length (concat (body six_bytes_request)) = 6"
    by (simp add: getFileInfo_created)
      (simp add: filePath_def example_env_def created_state_def example_config_def
        four_bytes_request_def six_bytes_request_def)
  have a: "completions (write_sequence example_env ''f1'' two_calls created_state) \<le>
     completions created_state + 1"
    using inst d by blast
  have b: "emitted (snd (write example_env no_faults four_bytes_request ''f1'' 0 created_state)) =
      emitted created_state \<and>
    emitted (write_sequence example_env ''f1''
      [(no_faults, four_bytes_request, 0), (no_faults, six_bytes_request, 4)] created_state) =
      emitted created_state @ [EVENT_UPLOAD_COMPLETE example_config]"
    using inst h by blast
  have e0: "emitted created_state = []"
    by (simp add: created_state_def)
  show ?thesis
    using d a b by (simp add: two_calls_def e0)
qed

text \<open>
  C2 as stated fails: after the two writes that complete the upload, a third
  call with an empty body at offset 10 notifies again, and so does a repetition
  of the second call; either lifetime of the upload has two notifications.
\<close>

theorem upload_complete_fires_twice_counterexample:
  "completions created_state = 0 \<and>
   completions (write_sequence example_env ''f1'' three_calls created_state) = 2 \<and>
   completions (write_sequence example_env ''f1'' retried_calls created_state) = 2"
proof -
  let ?p = "filePath example_env ''f1''"
  let ?s1 = "snd (write example_env no_faults four_bytes_request ''f1'' 0 created_state)"
  let ?s2 = "snd (write example_env no_faults six_bytes_request ''f1'' 4 ?s1)"
  let ?s3 = "snd (write example_env no_faults no_bytes_request ''f1'' 10 ?s2)"
  have v: "verify_checksum four_bytes_request (concat (body four_bytes_request)) = None"
    "verify_checksum six_bytes_request (concat (body six_bytes_request)) = None"
    "verify_checksum no_bytes_request (concat (body no_bytes_request)) = None"
    by (simp_all add: no_checksum_header four_bytes_request_def six_bytes_request_def
        no_bytes_request_def)
  have len: "length (concat (body four_bytes_request)) = 4"
    "length (concat (body six_bytes_request)) = 6"
    "length (concat (body no_bytes_request)) = 0"
    by (simp_all add: four_bytes_request_def six_bytes_request_def no_bytes_request_def)
  have d0: "disk created_state ?p = Some (RegFile [])"
    and t0: "disk created_state (?p @ ''.tmp'') \<noteq> Some Directory"
    by (simp_all add: filePath_def example_env_def created_state_def)
  note step1 = write_no_faults_step [OF d0 t0 v(1), of 0]
  note step2 = write_no_faults_step [OF step1(2) step1(3) v(2), of 4]
  note step3 = write_no_faults_step [OF step2(2) step2(3) v(3), of 10]
  have g1: "getFileInfo example_env no_faults ''f1'' (disk ?s1) = example_config"
    by (simp add: getFileInfo_after_write getFileInfo_created)
  have g2: "getFileInfo example_env no_faults ''f1'' (disk ?s2) = example_config"
    by (simp add: getFileInfo_after_write getFileInfo_created)
  have e0: "emitted created_state = []"
    by (simp add: created_state_def)
  have e1: "emitted ?s1 = []"
    by (simp add: step1(4) getFileInfo_created example_config_complete len e0)
  have e2: "emitted ?s2 = [EVENT_UPLOAD_COMPLETE example_config]"
    by (simp add: step2(4) g1 example_config_complete len e1)
  have e3: "emitted ?s3 =
      [EVENT_UPLOAD_COMPLETE example_config, EVENT_UPLOAD_COMPLETE example_config]"
    by (simp add: step3(4) g2 example_config_complete len e2)
  let ?s3' = "snd (write example_env no_faults six_bytes_request ''f1'' 4 ?s2)"
  note step3' = write_no_faults_step [OF step2(2) step2(3) v(2), of 4]
  have e3': "emitted ?s3' =
      [EVENT_UPLOAD_COMPLETE example_config, EVENT_UPLOAD_COMPLETE example_config]"
    by (simp add: step3'(4) g2 example_config_complete len e2)
  have "write_sequence example_env ''f1'' three_calls created_state = ?s3"
    and "write_sequence example_env ''f1'' retried_calls created_state = ?s3'"
    by (simp_all add: three_calls_def retried_calls_def two_calls_def)
  then show ?thesis
    by (simp add: completions_def e3 e3' e0)
qed

end
